theory Spec2Isabelle
  imports Complex_Main
begin

section \<open>Game configuration (game.js, lines 16-33)\<close>

text \<open>
  JavaScript numbers are modelled as mathematical numbers: timestamps, delays and the
  score, which the program only ever adds, subtracts and compares as whole numbers, are
  \<open>int\<close>; coordinates, sizes, health and the damage multiplier are \<open>real\<close>. Rounding of
  IEEE doubles is not modelled.
\<close>

definition PLAYER_SIZE :: real where "PLAYER_SIZE = 20"
definition PLAYER_SPEED :: real where "PLAYER_SPEED = 5"
definition BULLET_SIZE :: real where "BULLET_SIZE = 5"
definition BULLET_SPEED :: real where "BULLET_SPEED = 10"
definition ZOMBIE_SIZE :: real where "ZOMBIE_SIZE = 25"
definition ZOMBIE_SPEED :: real where "ZOMBIE_SPEED = 1.5"
definition ZOMBIE_SPAWN_INTERVAL :: int where "ZOMBIE_SPAWN_INTERVAL = 1500"
definition MAX_HEALTH :: real where "MAX_HEALTH = 100"
definition ZOMBIE_DAMAGE :: real where "ZOMBIE_DAMAGE = 10"
definition ITEM_SIZE :: real where "ITEM_SIZE = 15"
definition UPGRADE_DURATION :: int where "UPGRADE_DURATION = 10000"
definition UPGRADE_CHANCE :: real where "UPGRADE_CHANCE = 0.50"
definition ITEM_LIFETIME :: int where "ITEM_LIFETIME = 15000"
definition DAMAGE_BOOST_MULTIPLIER :: real where "DAMAGE_BOOST_MULTIPLIER = 1.5"

lemmas config_defs =
  PLAYER_SIZE_def PLAYER_SPEED_def BULLET_SIZE_def BULLET_SPEED_def ZOMBIE_SIZE_def
  ZOMBIE_SPEED_def ZOMBIE_SPAWN_INTERVAL_def MAX_HEALTH_def ZOMBIE_DAMAGE_def ITEM_SIZE_def
  UPGRADE_DURATION_def UPGRADE_CHANCE_def ITEM_LIFETIME_def DAMAGE_BOOST_MULTIPLIER_def

section \<open>Data model\<close>

text \<open>
  One record per class, holding the fields its constructor and class body declare (the
  colour strings, which only the drawing code reads, are left out). Field names shared
  by several classes carry the class initial: \<open>p_\<close> Player, \<open>b_\<close> Bullet, \<open>z_\<close> Zombie,
  \<open>i_\<close> Item.
\<close>

record Player =
  p_x :: real
  p_y :: real
  p_size :: real
  p_health :: real
  lastShotTime :: int
  tripleShotEndTime :: int
  damageBoostEndTime :: int
  currentShotDelay :: int
  defaultShotDelay :: int
  bulletDamageMultiplier :: real

record Bullet =
  b_x :: real
  b_y :: real
  b_size :: real
  vx :: real
  vy :: real

record Zombie =
  z_x :: real
  z_y :: real
  z_size :: real
  initialHealth :: real
  z_health :: real
  lastAttackTime :: int
  ATTACK_DELAY :: int

record Item =
  i_x :: real
  i_y :: real
  i_size :: real
  i_type :: string
  creationTime :: int

text \<open>Input state: \<open>keys\<close>, \<open>mouse\<close>, \<open>joystickState\<close> (lines 44-45, 763).\<close>

record Keys =
  key_w :: bool
  key_a :: bool
  key_s :: bool
  key_d :: bool
  key_up :: bool
  key_down :: bool
  key_left :: bool
  key_right :: bool

record Mouse =
  mouse_x :: real
  mouse_y :: real
  isFiring :: bool

record Joystick =
  js_active :: bool
  startX :: real
  startY :: real
  js_dx :: real
  js_dy :: real

text \<open>
  What \<open>updateStatsDisplay\<close> writes to the page: the score text, the health text and
  health bar value, whether the bar has the low-health colour, and the weapon status
  entries (label and remaining whole seconds).
\<close>

record Stats =
  scoreText :: int
  healthValueText :: real
  healthBarValue :: real
  lowHealthColor :: bool
  weaponStatus :: "(string \<times> int) list"

text \<open>
  The module-level variables of game.js, together with the host environment the
  simulation reads: the canvas size, the system clock and the random number generator.
  Every call of \<open>Date.now()\<close> takes the next reading of \<open>clock\<close>, every call of
  \<open>Math.random()\<close> the next reading of \<open>rng\<close>; the readings are arbitrary, so no two
  calls within one tick are assumed to agree. Audio, drawing and the animation-frame
  handle do not feed back into the simulation and are not part of the state.
\<close>

record game =
  player :: Player
  bullets :: "Bullet list"
  zombies :: "Zombie list"
  items :: "Item list"
  score :: int
  lastZombieSpawnTime :: int
  isGameOver :: bool
  keys :: Keys
  mouse :: Mouse
  joystickState :: Joystick
  activeJoystickTouchId :: "int option"
  stats :: Stats
  canvas_width :: real
  canvas_height :: real
  clock :: "nat \<Rightarrow> int"
  clock_reads :: nat
  rng :: "nat \<Rightarrow> real"
  rng_reads :: nat

section \<open>Host functions\<close>

definition Date_now :: "game \<Rightarrow> int \<times> game" where
  "Date_now g = (clock g (clock_reads g), g\<lparr>clock_reads := Suc (clock_reads g)\<rparr>)"

text \<open>\<open>Math.random()\<close> returns a number in [0, 1): the fractional part of the reading.\<close>

definition Math_random :: "game \<Rightarrow> real \<times> game" where
  "Math_random g = (frac (rng g (rng_reads g)), g\<lparr>rng_reads := Suc (rng_reads g)\<rparr>)"

text \<open>\<open>Math.atan2(y, x)\<close>, without the distinction between the two zeros.\<close>

definition atan2 :: "real \<Rightarrow> real \<Rightarrow> real" where
  "atan2 y x =
     (if 0 < x then arctan (y / x)
      else if x < 0 \<and> 0 \<le> y then arctan (y / x) + pi
      else if x < 0 then arctan (y / x) - pi
      else if 0 < y then pi / 2
      else if y < 0 then - (pi / 2)
      else 0)"

text \<open>
  \<open>Array.prototype.forEach\<close> and \<open>Array.prototype.filter\<close> with a callback that has
  effects: the callback may change the element it is given and the state it closes over.
  For \<open>filter\<close> the callback returns \<open>Some\<close> of the (possibly changed) element to keep it
  and \<open>None\<close> to drop it.
\<close>

fun forEach_st :: "('a \<Rightarrow> 's \<Rightarrow> 'a \<times> 's) \<Rightarrow> 'a list \<Rightarrow> 's \<Rightarrow> 'a list \<times> 's" where
  "forEach_st f [] s = ([], s)"
| "forEach_st f (a # as) s =
     (case f a s of (a', s1) \<Rightarrow>
        (case forEach_st f as s1 of (as', s2) \<Rightarrow> (a' # as', s2)))"

fun filter_st :: "('a \<Rightarrow> 's \<Rightarrow> 'a option \<times> 's) \<Rightarrow> 'a list \<Rightarrow> 's \<Rightarrow> 'a list \<times> 's" where
  "filter_st f [] s = ([], s)"
| "filter_st f (a # as) s =
     (case f a s of (r, s1) \<Rightarrow>
        (case filter_st f as s1 of (as', s2) \<Rightarrow>
           (case r of None \<Rightarrow> (as', s2) | Some a' \<Rightarrow> (a' # as', s2))))"

section \<open>Utility functions (lines 135-166)\<close>

definition dist2d :: "real \<Rightarrow> real \<Rightarrow> real \<Rightarrow> real \<Rightarrow> real" where
  "dist2d x1 y1 x2 y2 = sqrt ((x2 - x1) ^ 2 + (y2 - y1) ^ 2)"

definition updateStatsDisplay :: "game \<Rightarrow> game" where
  "updateStatsDisplay g =
     (case Date_now g of (now, g1) \<Rightarrow>
        let p = player g1;
            statuses1 =
              (if tripleShotEndTime p > now
               then [(''Triple Shot'', max 0 ((tripleShotEndTime p - now) div 1000))]
               else []);
            statuses2 =
              (if damageBoostEndTime p > now
               then statuses1 @ [(''Damage Boost'', max 0 ((damageBoostEndTime p - now) div 1000))]
               else statuses1)
        in g1\<lparr>stats :=
               \<lparr>scoreText = score g1,
                healthValueText = max 0 (p_health p),
                healthBarValue = max 0 (p_health p),
                lowHealthColor = (p_health p \<le> 30),
                weaponStatus = statuses2\<rparr>\<rparr>)"

section \<open>Player (lines 173-313)\<close>

definition new_Player :: "real \<Rightarrow> real \<Rightarrow> real \<Rightarrow> Player" where
  "new_Player x y sz =
     \<lparr>p_x = x, p_y = y, p_size = sz, p_health = MAX_HEALTH,
      lastShotTime = 0, tripleShotEndTime = 0, damageBoostEndTime = 0,
      currentShotDelay = 200, defaultShotDelay = 200, bulletDamageMultiplier = 1\<rparr>"

definition new_Bullet :: "real \<Rightarrow> real \<Rightarrow> real \<Rightarrow> real \<Rightarrow> Bullet" where
  "new_Bullet x y sz angle =
     \<lparr>b_x = x, b_y = y, b_size = sz,
      vx = cos angle * BULLET_SPEED, vy = sin angle * BULLET_SPEED\<rparr>"

definition createBullet :: "real \<Rightarrow> game \<Rightarrow> game" where
  "createBullet angle g =
     (let p = player g;
          bullet = new_Bullet (p_x p + cos angle * (p_size p / 2 + 5))
                              (p_y p + sin angle * (p_size p / 2 + 5))
                              BULLET_SIZE angle
      in g\<lparr>bullets := bullets g @ [bullet]\<rparr>)"

definition shoot :: "game \<Rightarrow> game" where
  "shoot g =
     (case Date_now g of (now, g1) \<Rightarrow>
        let p = player g1 in
        if now - lastShotTime p > currentShotDelay p then
          (let angle = atan2 (mouse_y (mouse g1) - p_y p) (mouse_x (mouse g1) - p_x p);
               tripleActive = (tripleShotEndTime p > now);
               g2 = (if \<not> tripleActive then createBullet angle g1
                     else (let spread = 0.35 in
                           createBullet (angle + spread)
                             (createBullet angle
                               (createBullet (angle - spread) g1))))
           in g2\<lparr>player := (player g2)\<lparr>lastShotTime := now\<rparr>\<rparr>)
        else g1)"

text \<open>\<open>Player.update\<close>, lines 215-242: movement from the input state, clamped to the canvas.\<close>

definition Player_move :: "game \<Rightarrow> game" where
  "Player_move g =
     (let p = player g; k = keys g; j = joystickState g;
          dy1 = (if key_w k \<or> key_up k then 0 - PLAYER_SPEED else 0);
          dy2 = (if key_s k \<or> key_down k then dy1 + PLAYER_SPEED else dy1);
          dx1 = (if key_a k \<or> key_left k then 0 - PLAYER_SPEED else 0);
          dx2 = (if key_d k \<or> key_right k then dx1 + PLAYER_SPEED else dx1);
          dx3 = (if js_active j then dx2 + js_dx j * PLAYER_SPEED else dx2);
          dy3 = (if js_active j then dy2 + js_dy j * PLAYER_SPEED else dy2);
          magnitude = sqrt (dx3 * dx3 + dy3 * dy3);
          dx4 = (if dx3 \<noteq> 0 \<and> dy3 \<noteq> 0 then (dx3 / magnitude) * PLAYER_SPEED else dx3);
          dy4 = (if dx3 \<noteq> 0 \<and> dy3 \<noteq> 0 then (dy3 / magnitude) * PLAYER_SPEED else dy3);
          x1 = p_x p + dx4;
          y1 = p_y p + dy4;
          x2 = max (p_size p / 2) (min (canvas_width g - p_size p / 2) x1);
          y2 = max (p_size p / 2) (min (canvas_height g - p_size p / 2) y1)
      in g\<lparr>player := p\<lparr>p_x := x2, p_y := y2\<rparr>\<rparr>)"

text \<open>\<open>Player.update\<close>, lines 244-250: the derived fire rate and damage multiplier.\<close>

definition Player_effects :: "game \<Rightarrow> game" where
  "Player_effects g =
     (case Date_now g of (now, g1) \<Rightarrow>
        let p = player g1;
            tripleActive = (tripleShotEndTime p > now);
            damageBoostActive = (damageBoostEndTime p > now)
        in g1\<lparr>player := p\<lparr>currentShotDelay := (if tripleActive then 300 else defaultShotDelay p),
                            bulletDamageMultiplier :=
                              (if damageBoostActive then DAMAGE_BOOST_MULTIPLIER else 1)\<rparr>\<rparr>)"

definition Player_update :: "game \<Rightarrow> game" where
  "Player_update g =
     (let g1 = Player_move g;
          g2 = Player_effects g1;
          g3 = (if isFiring (mouse g2) then shoot g2 else g2)
      in updateStatsDisplay g3)"

definition applyUpgrade :: "string \<Rightarrow> game \<Rightarrow> game" where
  "applyUpgrade ty g =
     (if ty = ''health_pack'' then
        (let healthRestored = 30 in
         g\<lparr>player := (player g)\<lparr>p_health := min MAX_HEALTH (p_health (player g) + healthRestored)\<rparr>\<rparr>)
      else if ty = ''triple_shot'' then
        (case Date_now g of (now, g1) \<Rightarrow>
           g1\<lparr>player := (player g1)\<lparr>tripleShotEndTime := now + UPGRADE_DURATION,
                                     currentShotDelay := 300\<rparr>\<rparr>)
      else if ty = ''damage_boost'' then
        (case Date_now g of (now, g1) \<Rightarrow>
           g1\<lparr>player := (player g1)\<lparr>damageBoostEndTime := now + UPGRADE_DURATION\<rparr>\<rparr>)
      else g)"

section \<open>Bullet (lines 318-343)\<close>

definition Bullet_update :: "Bullet \<Rightarrow> Bullet" where
  "Bullet_update b = b\<lparr>b_x := b_x b + vx b, b_y := b_y b + vy b\<rparr>"

definition isOffScreen :: "Bullet \<Rightarrow> game \<Rightarrow> bool" where
  "isOffScreen b g \<longleftrightarrow> b_x b < 0 \<or> b_x b > canvas_width g \<or> b_y b < 0 \<or> b_y b > canvas_height g"

section \<open>Zombie (lines 348-406)\<close>

definition new_Zombie :: "real \<Rightarrow> real \<Rightarrow> real \<Rightarrow> Zombie" where
  "new_Zombie x y sz =
     \<lparr>z_x = x, z_y = y, z_size = sz, initialHealth = 30, z_health = 30,
      lastAttackTime = 0, ATTACK_DELAY = 1000\<rparr>"

text \<open>Of \<open>gameOver\<close> (lines 672-686) the flag is what the simulation reads.\<close>

definition gameOver :: "game \<Rightarrow> game" where
  "gameOver g = g\<lparr>isGameOver := True\<rparr>"

definition attackPlayer :: "Zombie \<Rightarrow> game \<Rightarrow> Zombie \<times> game" where
  "attackPlayer z g =
     (case Date_now g of (now, g1) \<Rightarrow>
        if now - lastAttackTime z > ATTACK_DELAY z then
          (let g2 = g1\<lparr>player := (player g1)\<lparr>p_health := p_health (player g1) - ZOMBIE_DAMAGE\<rparr>\<rparr>;
               z1 = z\<lparr>lastAttackTime := now\<rparr>
           in (z1, if p_health (player g2) \<le> 0 then gameOver g2 else g2))
        else (z, g1))"

definition Zombie_update :: "Zombie \<Rightarrow> game \<Rightarrow> Zombie \<times> game" where
  "Zombie_update z g =
     (let p = player g;
          angle = atan2 (p_y p - z_y z) (p_x p - z_x z);
          z1 = z\<lparr>z_x := z_x z + cos angle * ZOMBIE_SPEED,
                 z_y := z_y z + sin angle * ZOMBIE_SPEED\<rparr>
      in if dist2d (z_x z1) (z_y z1) (p_x p) (p_y p) < z_size z1 / 2 + p_size p / 2
         then attackPlayer z1 g
         else (z1, g))"

section \<open>Item (lines 411-418)\<close>

definition new_Item :: "real \<Rightarrow> real \<Rightarrow> real \<Rightarrow> string \<Rightarrow> game \<Rightarrow> Item \<times> game" where
  "new_Item x y sz ty g =
     (case Date_now g of (now, g1) \<Rightarrow>
        (\<lparr>i_x = x, i_y = y, i_size = sz, i_type = ty, creationTime = now\<rparr>, g1))"

section \<open>Game logic (lines 525-623)\<close>

definition spawnZombie :: "game \<Rightarrow> game" where
  "spawnZombie g =
     (case Math_random g of (r, g1) \<Rightarrow>
        let side = \<lfloor>r * 4\<rfloor> in
        if side = 0 then
          (case Math_random g1 of (r1, g2) \<Rightarrow>
             g2\<lparr>zombies := zombies g2 @ [new_Zombie (r1 * canvas_width g2) (- ZOMBIE_SIZE) ZOMBIE_SIZE]\<rparr>)
        else if side = 1 then
          (case Math_random g1 of (r1, g2) \<Rightarrow>
             g2\<lparr>zombies := zombies g2 @
                   [new_Zombie (canvas_width g2 + ZOMBIE_SIZE) (r1 * canvas_height g2) ZOMBIE_SIZE]\<rparr>)
        else if side = 2 then
          (case Math_random g1 of (r1, g2) \<Rightarrow>
             g2\<lparr>zombies := zombies g2 @
                   [new_Zombie (r1 * canvas_width g2) (canvas_height g2 + ZOMBIE_SIZE) ZOMBIE_SIZE]\<rparr>)
        else
          (case Math_random g1 of (r1, g2) \<Rightarrow>
             g2\<lparr>zombies := zombies g2 @ [new_Zombie (- ZOMBIE_SIZE) (r1 * canvas_height g2) ZOMBIE_SIZE]\<rparr>))"

text \<open>Phase 1 of \<open>updateGame\<close> (lines 553-560): the spawn interval and the spawn.\<close>

definition currentSpawnInterval :: "int \<Rightarrow> int" where
  "currentSpawnInterval sc =
     (let spawnRateReduction = min (sc * 8) 1000
      in ZOMBIE_SPAWN_INTERVAL - spawnRateReduction)"

definition spawn_phase :: "game \<Rightarrow> game" where
  "spawn_phase g =
     (case Date_now g of (now, g1) \<Rightarrow>
        if now - lastZombieSpawnTime g1 > currentSpawnInterval (score g1)
        then (spawnZombie g1)\<lparr>lastZombieSpawnTime := now\<rparr>
        else g1)"

text \<open>Phase 2 (lines 563-565): the player, then every bullet, then every zombie.\<close>

definition update_entities :: "game \<Rightarrow> game" where
  "update_entities g =
     (let g1 = Player_update g;
          g2 = g1\<lparr>bullets := map Bullet_update (bullets g1)\<rparr>
      in case forEach_st Zombie_update (zombies g2) g2 of
           (zs, g3) \<Rightarrow> g3\<lparr>zombies := zs\<rparr>)"

text \<open>
  Phase 3 (lines 569-584): the callback of \<open>items.filter\<close> and the phase. \<open>touches\<close> is
  the collision test of line 578.
\<close>

definition touches :: "Player \<Rightarrow> Item \<Rightarrow> bool" where
  "touches p item \<longleftrightarrow>
     dist2d (p_x p) (p_y p) (i_x item) (i_y item) < p_size p / 2 + i_size item / 2"

definition item_filter :: "Item \<Rightarrow> game \<Rightarrow> Item option \<times> game" where
  "item_filter item g =
     (case Date_now g of (now, g1) \<Rightarrow>
        if now - creationTime item > ITEM_LIFETIME then (None, g1)
        else if touches (player g1) item
        then (None, applyUpgrade (i_type item) g1)
        else (Some item, g1))"

definition item_phase :: "game \<Rightarrow> game" where
  "item_phase g =
     (case filter_st item_filter (items g) g of (is, g1) \<Rightarrow> g1\<lparr>items := is\<rparr>)"

text \<open>
  Phase 4 (lines 587-617). \<open>hits\<close> is the collision test of line 590.
  \<open>zombie_filter bullet\<close> is the callback of the inner \<open>zombies.filter\<close>; besides the game
  it changes the local variable \<open>hit\<close> of the enclosing callback. \<open>bullet_filter\<close> is the
  callback of \<open>bullets.filter\<close>.
\<close>

definition itemTypes :: "string list" where
  "itemTypes = [''triple_shot'', ''health_pack'', ''damage_boost'']"

definition dropItem :: "Zombie \<Rightarrow> game \<Rightarrow> game" where
  "dropItem zombie g =
     (case Math_random g of (r, g1) \<Rightarrow>
        if r < UPGRADE_CHANCE then
          (case Math_random g1 of (r1, g2) \<Rightarrow>
             let randomType = itemTypes ! nat \<lfloor>r1 * real (length itemTypes)\<rfloor> in
             case new_Item (z_x zombie) (z_y zombie) ITEM_SIZE randomType g2 of
               (newItem, g3) \<Rightarrow> g3\<lparr>items := items g3 @ [newItem]\<rparr>)
        else g1)"

definition hits :: "Bullet \<Rightarrow> Zombie \<Rightarrow> bool" where
  "hits bullet zombie \<longleftrightarrow>
     dist2d (b_x bullet) (b_y bullet) (z_x zombie) (z_y zombie)
       < b_size bullet / 2 + z_size zombie / 2"

fun zombie_filter :: "Bullet \<Rightarrow> Zombie \<Rightarrow> bool \<times> game \<Rightarrow> Zombie option \<times> (bool \<times> game)" where
  "zombie_filter bullet zombie (hit, g) =
     (if hits bullet zombie
      then
        (let damage = 10 * bulletDamageMultiplier (player g);
             zombie1 = zombie\<lparr>z_health := z_health zombie - damage\<rparr>
         in if z_health zombie1 \<le> 0
            then (None, (hit, dropItem zombie1 (g\<lparr>score := score g + 10\<rparr>)))
            else (Some zombie1, (True, g)))
      else (Some zombie, (hit, g)))"

definition bullet_filter :: "Bullet \<Rightarrow> game \<Rightarrow> Bullet option \<times> game" where
  "bullet_filter bullet g =
     (case filter_st (zombie_filter bullet) (zombies g) (False, g) of
        (zs, (hit, g1)) \<Rightarrow>
          let g2 = g1\<lparr>zombies := zs\<rparr>
          in (if \<not> hit \<and> \<not> isOffScreen bullet g2 then Some bullet else None, g2))"

definition collision_phase :: "game \<Rightarrow> game" where
  "collision_phase g =
     (case filter_st bullet_filter (bullets g) g of (bs, g1) \<Rightarrow> g1\<lparr>bullets := bs\<rparr>)"

text \<open>Phase 5 (lines 620-622).\<close>

definition check_game_over :: "game \<Rightarrow> game" where
  "check_game_over g = (if p_health (player g) \<le> 0 then gameOver g else g)"

definition updateGame :: "game \<Rightarrow> game" where
  "updateGame g =
     (if isGameOver g then g
      else check_game_over (collision_phase (item_phase (update_entities (spawn_phase g)))))"

section \<open>Restart (lines 691-718, 891-897)\<close>

definition resetJoystick :: "game \<Rightarrow> game" where
  "resetJoystick g =
     g\<lparr>joystickState := (joystickState g)\<lparr>js_active := False, js_dx := 0, js_dy := 0\<rparr>,
       activeJoystickTouchId := None\<rparr>"

definition initGame :: "game \<Rightarrow> game" where
  "initGame g =
     (let g1 = g\<lparr>keys := \<lparr>key_w = False, key_a = False, key_s = False, key_d = False,
                          key_up = False, key_down = False, key_left = False, key_right = False\<rparr>,
                 mouse := \<lparr>mouse_x = 0, mouse_y = 0, isFiring = False\<rparr>\<rparr>;
          g2 = resetJoystick g1;
          g3 = g2\<lparr>isGameOver := False,
                  player := new_Player (canvas_width g2 / 2) (canvas_height g2 / 2) PLAYER_SIZE,
                  bullets := [], zombies := [], items := [], score := 0,
                  lastZombieSpawnTime := 0\<rparr>
      in updateStatsDisplay g3)"

section \<open>Derived quantities\<close>

text \<open>
  The aim angle that \<open>shoot\<close> computes (line 295), and the direction of a bullet's
  velocity vector.
\<close>

definition aimAngle :: "game \<Rightarrow> real" where
  "aimAngle g = atan2 (mouse_y (mouse g) - p_y (player g)) (mouse_x (mouse g) - p_x (player g))"

definition heading :: "Bullet \<Rightarrow> real" where
  "heading b = atan2 (vy b) (vx b)"

section \<open>Scenarios\<close>

text \<open>
  Concrete sessions on which the theorems below are exercised: a running game on an
  800 by 800 canvas with the player at the centre, no input held, a clock that reads \<open>t\<close>
  at every call and a random number generator that returns \<open>r\<close> at every call.
\<close>

definition fresh_game :: "int \<Rightarrow> real \<Rightarrow> game" where
  "fresh_game t r =
     \<lparr>player = new_Player 400 400 PLAYER_SIZE,
      bullets = [], zombies = [], items = [], score = 0,
      lastZombieSpawnTime = 0, isGameOver = False,
      keys = \<lparr>key_w = False, key_a = False, key_s = False, key_d = False,
               key_up = False, key_down = False, key_left = False, key_right = False\<rparr>,
      mouse = \<lparr>mouse_x = 0, mouse_y = 0, isFiring = False\<rparr>,
      joystickState = \<lparr>js_active = False, startX = 0, startY = 0, js_dx = 0, js_dy = 0\<rparr>,
      activeJoystickTouchId = None,
      stats = \<lparr>scoreText = 0, healthValueText = 100, healthBarValue = 100,
                lowHealthColor = False, weaponStatus = []\<rparr>,
      canvas_width = 800, canvas_height = 800,
      clock = (\<lambda>_. t), clock_reads = 0,
      rng = (\<lambda>_. r), rng_reads = 0\<rparr>"

text \<open>The player aims at a point straight to the right, with triple shot running until \<open>e\<close>.\<close>

definition aiming_right :: "int \<Rightarrow> game" where
  "aiming_right e =
     (fresh_game 5000 0)
       \<lparr>player := (new_Player 400 400 PLAYER_SIZE)\<lparr>tripleShotEndTime := e\<rparr>,
        mouse := \<lparr>mouse_x = 500, mouse_y = 400, isFiring = True\<rparr>\<rparr>"

text \<open>
  Two zombies 10 apart with a bullet between them, overlapping both, and a second bullet
  far from either.
\<close>

definition pierce_scene :: game where
  "pierce_scene =
     (fresh_game 5000 0)
       \<lparr>bullets := [new_Bullet 105 100 BULLET_SIZE 0, new_Bullet 300 300 BULLET_SIZE 0],
        zombies := [new_Zombie 100 100 ZOMBIE_SIZE, new_Zombie 110 100 ZOMBIE_SIZE]\<rparr>"

text \<open>One zombie, as spawned (health 30), and no bullets yet.\<close>

definition lone_zombie :: game where
  "lone_zombie = (fresh_game 5000 0)\<lparr>zombies := [new_Zombie 100 100 ZOMBIE_SIZE]\<rparr>"

text \<open>The session after a damage boost was applied at clock reading 5000, seen at time \<open>t\<close>.\<close>

definition boosted :: "int \<Rightarrow> game" where
  "boosted t = (applyUpgrade ''damage_boost'' (fresh_game 5000 0))\<lparr>clock := (\<lambda>_. t)\<rparr>"

text \<open>
  The player at health 10 with two zombies 5 and 10 to the left, both within reach after
  they move; no zombie is due to spawn.
\<close>

definition two_attackers :: game where
  "two_attackers =
     (fresh_game 5000 0)
       \<lparr>player := (new_Player 400 400 PLAYER_SIZE)\<lparr>p_health := 10\<rparr>,
        zombies := [new_Zombie 395 400 ZOMBIE_SIZE, new_Zombie 390 400 ZOMBIE_SIZE],
        lastZombieSpawnTime := 5000\<rparr>"

text \<open>An item created at time 0 away from the player, in a session whose clock reads \<open>t\<close>.\<close>

definition old_item :: Item where
  "old_item = \<lparr>i_x = 100, i_y = 100, i_size = ITEM_SIZE, i_type = ''health_pack'', creationTime = 0\<rparr>"

definition aging_item :: "int \<Rightarrow> game" where
  "aging_item t = (fresh_game t 0)\<lparr>items := [old_item], lastZombieSpawnTime := t\<rparr>"

text \<open>
  The player stands on a damage boost item created at 4000, while a bullet flying to the
  right is one step away from a zombie; no zombie is due to spawn.
\<close>

definition boost_item :: Item where
  "boost_item = \<lparr>i_x = 400, i_y = 400, i_size = ITEM_SIZE, i_type = ''damage_boost'', creationTime = 4000\<rparr>"

definition boost_pickup :: game where
  "boost_pickup =
     (fresh_game 5000 0)
       \<lparr>bullets := [new_Bullet 90 400 BULLET_SIZE 0],
        zombies := [new_Zombie 100 400 ZOMBIE_SIZE],
        items := [boost_item],
        lastZombieSpawnTime := 5000\<rparr>"

section \<open>Lemmas about the model\<close>

subsection \<open>Scenario facts\<close>

lemma fresh_game_sel [simp]:
  "player (fresh_game t r) = new_Player 400 400 PLAYER_SIZE"
  "bullets (fresh_game t r) = []"
  "zombies (fresh_game t r) = []"
  "items (fresh_game t r) = []"
  "score (fresh_game t r) = 0"
  "lastZombieSpawnTime (fresh_game t r) = 0"
  "isGameOver (fresh_game t r) = False"
  "isFiring (mouse (fresh_game t r)) = False"
  "canvas_width (fresh_game t r) = 800"
  "canvas_height (fresh_game t r) = 800"
  "clock (fresh_game t r) = (\<lambda>_. t)"
  "clock_reads (fresh_game t r) = 0"
  "rng (fresh_game t r) = (\<lambda>_. r)"
  "rng_reads (fresh_game t r) = 0"
  by (simp_all add: fresh_game_def)

lemma aiming_right_facts:
  "clock (aiming_right e) (clock_reads (aiming_right e)) = 5000"
  "lastShotTime (player (aiming_right e)) = 0"
  "currentShotDelay (player (aiming_right e)) = 200"
  "tripleShotEndTime (player (aiming_right e)) = e"
  "bullets (aiming_right e) = []"
  "aimAngle (aiming_right e) = 0"
  by (simp_all add: aiming_right_def new_Player_def aimAngle_def atan2_def)

lemma pierce_scene_sel [simp]:
  "bullets pierce_scene = [new_Bullet 105 100 BULLET_SIZE 0, new_Bullet 300 300 BULLET_SIZE 0]"
  "zombies pierce_scene = [new_Zombie 100 100 ZOMBIE_SIZE, new_Zombie 110 100 ZOMBIE_SIZE]"
  "bulletDamageMultiplier (player pierce_scene) = 1"
  "canvas_width pierce_scene = 800" "canvas_height pierce_scene = 800"
  by (simp_all add: pierce_scene_def new_Player_def)

lemma two_attackers_sel [simp]:
  "player two_attackers = (new_Player 400 400 PLAYER_SIZE)\<lparr>p_health := 10\<rparr>"
  "zombies two_attackers = [new_Zombie 395 400 ZOMBIE_SIZE, new_Zombie 390 400 ZOMBIE_SIZE]"
  "bullets two_attackers = []" "items two_attackers = []"
  "lastZombieSpawnTime two_attackers = 5000" "score two_attackers = 0"
  "isGameOver two_attackers = False"
  "clock two_attackers = (\<lambda>_. 5000)" "clock_reads two_attackers = 0"
  "canvas_width two_attackers = 800" "canvas_height two_attackers = 800"
  "isFiring (mouse two_attackers) = False"
  "js_active (joystickState two_attackers) = False"
  "keys two_attackers = \<lparr>key_w = False, key_a = False, key_s = False, key_d = False,
               key_up = False, key_down = False, key_left = False, key_right = False\<rparr>"
  by (simp_all add: two_attackers_def fresh_game_def)

lemma aging_item_sel [simp]:
  "items (aging_item t) = [old_item]" "clock (aging_item t) = (\<lambda>_. t)"
  "clock_reads (aging_item t) = 0"
  "isGameOver (aging_item t) = False" "player (aging_item t) = new_Player 400 400 PLAYER_SIZE"
  "keys (aging_item t) = \<lparr>key_w = False, key_a = False, key_s = False, key_d = False,
               key_up = False, key_down = False, key_left = False, key_right = False\<rparr>"
  "js_active (joystickState (aging_item t)) = False"
  "canvas_width (aging_item t) = 800" "canvas_height (aging_item t) = 800"
  by (simp_all add: aging_item_def fresh_game_def)

lemma boost_pickup_sel [simp]:
  "player boost_pickup = new_Player 400 400 PLAYER_SIZE"
  "zombies boost_pickup = [new_Zombie 100 400 ZOMBIE_SIZE]"
  "bullets boost_pickup = [new_Bullet 90 400 BULLET_SIZE 0]"
  "items boost_pickup = [boost_item]"
  "lastZombieSpawnTime boost_pickup = 5000" "score boost_pickup = 0"
  "isGameOver boost_pickup = False"
  "clock boost_pickup = (\<lambda>_. 5000)" "clock_reads boost_pickup = 0"
  "canvas_width boost_pickup = 800" "canvas_height boost_pickup = 800"
  "isFiring (mouse boost_pickup) = False"
  "js_active (joystickState boost_pickup) = False"
  "keys boost_pickup = \<lparr>key_w = False, key_a = False, key_s = False, key_d = False,
               key_up = False, key_down = False, key_left = False, key_right = False\<rparr>"
  by (simp_all add: boost_pickup_def fresh_game_def)

subsection \<open>Constructors, distances and angles\<close>

lemma new_Player_sel:
  "p_x (new_Player x y s) = x" "p_y (new_Player x y s) = y" "p_size (new_Player x y s) = s"
  "p_health (new_Player x y s) = MAX_HEALTH" "lastShotTime (new_Player x y s) = 0"
  "tripleShotEndTime (new_Player x y s) = 0" "damageBoostEndTime (new_Player x y s) = 0"
  "currentShotDelay (new_Player x y s) = 200" "defaultShotDelay (new_Player x y s) = 200"
  "bulletDamageMultiplier (new_Player x y s) = 1"
  by (simp_all add: new_Player_def)

lemma new_Zombie_sel:
  "z_x (new_Zombie x y s) = x" "z_y (new_Zombie x y s) = y" "z_size (new_Zombie x y s) = s"
  "initialHealth (new_Zombie x y s) = 30" "z_health (new_Zombie x y s) = 30"
  "lastAttackTime (new_Zombie x y s) = 0" "ATTACK_DELAY (new_Zombie x y s) = 1000"
  by (simp_all add: new_Zombie_def)

lemma new_Zombie_health [simp]: "z_health (new_Zombie x y s) = 30"
  by (simp add: new_Zombie_def)

lemma dist2d_less_iff:
  "dist2d x1 y1 x2 y2 < r \<longleftrightarrow> 0 < r \<and> (x2 - x1)\<^sup>2 + (y2 - y1)\<^sup>2 < r\<^sup>2"
proof (cases "0 < r")
  case True
  then have "sqrt (r\<^sup>2) = r" by simp
  then have "dist2d x1 y1 x2 y2 < r \<longleftrightarrow> sqrt ((x2 - x1)\<^sup>2 + (y2 - y1)\<^sup>2) < sqrt (r\<^sup>2)"
    by (simp add: dist2d_def)
  with True show ?thesis by (simp only: real_sqrt_less_iff) simp
next
  case False
  have "0 \<le> dist2d x1 y1 x2 y2" by (simp add: dist2d_def)
  with False show ?thesis by simp
qed

lemma dist2d_horizontal: "dist2d x1 y x2 y = \<bar>x2 - x1\<bar>"
  by (simp add: dist2d_def)

lemma hits_iff:
  "hits b z \<longleftrightarrow>
     0 < b_size b / 2 + z_size z / 2
     \<and> (z_x z - b_x b) * (z_x z - b_x b) + (z_y z - b_y b) * (z_y z - b_y b)
         < (b_size b / 2 + z_size z / 2) * (b_size b / 2 + z_size z / 2)"
  by (simp only: hits_def dist2d_less_iff power2_eq_square)

lemma hits_new [simp]:
  "hits (new_Bullet bx by bs a) (new_Zombie zx zy zs) \<longleftrightarrow>
     0 < bs / 2 + zs / 2 \<and> (zx - bx)\<^sup>2 + (zy - by)\<^sup>2 < (bs / 2 + zs / 2)\<^sup>2"
  by (simp add: hits_def dist2d_less_iff new_Bullet_def new_Zombie_def)

lemma hits_health [simp]: "hits b (z\<lparr>z_health := h\<rparr>) = hits b z"
  by (simp add: hits_def)

lemma touches_iff:
  "touches p it \<longleftrightarrow>
     0 < p_size p / 2 + i_size it / 2
     \<and> (i_x it - p_x p) * (i_x it - p_x p) + (i_y it - p_y p) * (i_y it - p_y p)
         < (p_size p / 2 + i_size it / 2) * (p_size p / 2 + i_size it / 2)"
  by (simp only: touches_def dist2d_less_iff power2_eq_square)

lemma touches_cong:
  "p_x p = p_x q \<Longrightarrow> p_y p = p_y q \<Longrightarrow> p_size p = p_size q \<Longrightarrow> touches p it = touches q it"
  by (simp add: touches_def)

lemma isOffScreen_new [simp]:
  "isOffScreen (new_Bullet x y s a) g \<longleftrightarrow> x < 0 \<or> canvas_width g < x \<or> y < 0 \<or> canvas_height g < y"
  by (simp add: isOffScreen_def new_Bullet_def)

lemma atan2_range: "- pi < atan2 y x \<and> atan2 y x \<le> pi"
proof -
  have a: "- (pi / 2) < arctan (y / x)" "arctan (y / x) < pi / 2"
    by (rule arctan_lbound, rule arctan_ubound)
  have b: "0 \<le> y \<Longrightarrow> x < 0 \<Longrightarrow> arctan (y / x) \<le> 0"
    by (simp add: divide_nonneg_neg)
  have c: "y < 0 \<Longrightarrow> x < 0 \<Longrightarrow> 0 < arctan (y / x)"
    by (simp add: divide_neg_neg)
  from a b c show ?thesis
    using pi_gt_zero by (auto simp add: atan2_def)
qed

lemma atan2_polar:
  assumes r: "0 < r" and lo: "- pi < a" and hi: "a \<le> pi"
  shows "atan2 (sin a * r) (cos a * r) = a"
proof -
  consider (mid) "- (pi / 2) < a" "a < pi / 2"
    | (up) "pi / 2 < a"
    | (down) "a < - (pi / 2)"
    | (top) "a = pi / 2"
    | (bot) "a = - (pi / 2)"
    by linarith
  then show ?thesis
  proof cases
    case mid
    then have c: "0 < cos a" by (simp add: cos_gt_zero_pi)
    have "sin a * r / (cos a * r) = tan a" using r by (simp add: tan_def)
    moreover have "0 < cos a * r" using c r by simp
    ultimately show ?thesis using mid by (simp add: atan2_def arctan_tan)
  next
    case up
    have c': "0 < cos (a - pi)" using up hi by (intro cos_gt_zero_pi) linarith+
    then have c: "cos a < 0" by simp
    have s: "0 \<le> sin a" using up hi pi_gt_zero by (intro sin_ge_zero) linarith+
    have "sin a * r / (cos a * r) = tan (a - pi)" using r by (simp add: tan_def)
    moreover have "arctan (tan (a - pi)) = a - pi" using up hi by (intro arctan_tan) linarith+
    moreover have "cos a * r < 0" using c r by (simp add: mult_neg_pos)
    moreover have "0 \<le> sin a * r" using s r by simp
    ultimately show ?thesis by (simp add: atan2_def)
  next
    case down
    have c': "0 < cos (a + pi)" using down lo by (intro cos_gt_zero_pi) linarith+
    then have c: "cos a < 0" by simp
    have "0 < sin (a + pi)" using down lo by (intro sin_gt_zero) linarith+
    then have s: "sin a < 0" by simp
    have "sin a * r / (cos a * r) = tan (a + pi)" using r by (simp add: tan_def)
    moreover have "arctan (tan (a + pi)) = a + pi" using down lo by (intro arctan_tan) linarith+
    moreover have "cos a * r < 0" using c r by (simp add: mult_neg_pos)
    moreover have "sin a * r < 0" using s r by (simp add: mult_neg_pos)
    ultimately show ?thesis by (simp add: atan2_def)
  next
    case top
    have "sin a = 1" "cos a = 0" unfolding top by simp_all
    then have "atan2 (sin a * r) (cos a * r) = pi / 2" using r by (simp add: atan2_def)
    then show ?thesis unfolding top .
  next
    case bot
    have "sin a = - 1" "cos a = 0" unfolding bot by simp_all
    then have "atan2 (sin a * r) (cos a * r) = - (pi / 2)" using r by (simp add: atan2_def)
    then show ?thesis unfolding bot .
  qed
qed

lemma heading_new_Bullet:
  "- pi < a \<Longrightarrow> a \<le> pi \<Longrightarrow> heading (new_Bullet x y sz a) = a"
  by (simp add: heading_def new_Bullet_def BULLET_SPEED_def atan2_polar)

lemma aimAngle_range: "- pi < aimAngle g \<and> aimAngle g \<le> pi"
  by (simp add: aimAngle_def atan2_range)

subsection \<open>Loops with effects\<close>

lemma forEach_st_inv:
  assumes step: "\<And>a s. P s \<Longrightarrow> P (snd (f a s))" and init: "P s"
  shows "P (snd (forEach_st f as s))"
  using init
proof (induction as arbitrary: s)
  case Nil
  then show ?case by simp
next
  case (Cons a as)
  from step [OF Cons.prems, of a] have "P (snd (f a s))" .
  from Cons.IH [OF this] show ?case
    by (auto split: prod.splits)
qed

lemma filter_st_inv:
  assumes step: "\<And>a s. P s \<Longrightarrow> P (snd (f a s))" and init: "P s"
  shows "P (snd (filter_st f as s))"
  using init
proof (induction as arbitrary: s)
  case Nil
  then show ?case by simp
next
  case (Cons a as)
  from step [OF Cons.prems, of a] have "P (snd (f a s))" .
  from Cons.IH [OF this] show ?case
    by (auto split: prod.splits option.splits)
qed

subsection \<open>Clock and statistics display\<close>

lemma Date_now_sel [simp]:
  "fst (Date_now g) = clock g (clock_reads g)"
  "snd (Date_now g) = g\<lparr>clock_reads := Suc (clock_reads g)\<rparr>"
  by (simp_all add: Date_now_def)

lemma updateStatsDisplay_frame:
  "player (updateStatsDisplay g) = player g" "items (updateStatsDisplay g) = items g"
  "bullets (updateStatsDisplay g) = bullets g" "zombies (updateStatsDisplay g) = zombies g"
  "score (updateStatsDisplay g) = score g" "clock (updateStatsDisplay g) = clock g"
  "canvas_width (updateStatsDisplay g) = canvas_width g"
  "canvas_height (updateStatsDisplay g) = canvas_height g"
  "isGameOver (updateStatsDisplay g) = isGameOver g"
  "healthValueText (stats (updateStatsDisplay g)) = max 0 (p_health (player g))"
  "healthBarValue (stats (updateStatsDisplay g)) = max 0 (p_health (player g))"
  by (simp_all add: updateStatsDisplay_def Date_now_def Let_def)

subsection \<open>Spawning\<close>

lemma spawnZombie_appends: "\<exists>z. zombies (spawnZombie g) = zombies g @ [z]"
  by (simp add: spawnZombie_def Math_random_def Let_def)

lemma spawnZombie_frame:
  "player (spawnZombie g) = player g" "items (spawnZombie g) = items g"
  "bullets (spawnZombie g) = bullets g" "score (spawnZombie g) = score g"
  "clock (spawnZombie g) = clock g" "clock_reads (spawnZombie g) = clock_reads g"
  "canvas_width (spawnZombie g) = canvas_width g" "canvas_height (spawnZombie g) = canvas_height g"
  "isGameOver (spawnZombie g) = isGameOver g" "stats (spawnZombie g) = stats g"
  "keys (spawnZombie g) = keys g" "mouse (spawnZombie g) = mouse g"
  "joystickState (spawnZombie g) = joystickState g"
  by (simp_all add: spawnZombie_def Math_random_def Let_def)

lemma spawn_phase_frame:
  "player (spawn_phase g) = player g" "items (spawn_phase g) = items g"
  "bullets (spawn_phase g) = bullets g" "score (spawn_phase g) = score g"
  "clock (spawn_phase g) = clock g" "clock_reads (spawn_phase g) = Suc (clock_reads g)"
  "canvas_width (spawn_phase g) = canvas_width g" "canvas_height (spawn_phase g) = canvas_height g"
  "isGameOver (spawn_phase g) = isGameOver g" "stats (spawn_phase g) = stats g"
  "keys (spawn_phase g) = keys g" "mouse (spawn_phase g) = mouse g"
  "joystickState (spawn_phase g) = joystickState g"
  by (simp_all add: spawn_phase_def Date_now_def spawnZombie_frame)

lemma spawn_phase_idle:
  "\<not> clock g (clock_reads g) - lastZombieSpawnTime g > currentSpawnInterval (score g) \<Longrightarrow>
   spawn_phase g = g\<lparr>clock_reads := Suc (clock_reads g)\<rparr>"
  by (simp add: spawn_phase_def Date_now_def)

subsection \<open>Player\<close>

lemma Player_move_frame:
  "\<exists>x y. Player_move g = g\<lparr>player := (player g)\<lparr>p_x := x, p_y := y\<rparr>\<rparr>"
  unfolding Player_move_def Let_def by (intro exI, rule refl)

lemma Player_move_size: "p_size (player (Player_move g)) = p_size (player g)"
proof -
  obtain x y where "Player_move g = g\<lparr>player := (player g)\<lparr>p_x := x, p_y := y\<rparr>\<rparr>"
    using Player_move_frame by blast
  then show ?thesis by simp
qed

lemma Player_move_idle:
  assumes "keys g = \<lparr>key_w = False, key_a = False, key_s = False, key_d = False,
               key_up = False, key_down = False, key_left = False, key_right = False\<rparr>"
    and "\<not> js_active (joystickState g)"
    and "p_size (player g) / 2 \<le> p_x (player g)" 
    and "p_x (player g) \<le> canvas_width g - p_size (player g) / 2"
    and "p_size (player g) / 2 \<le> p_y (player g)" 
    and "p_y (player g) \<le> canvas_height g - p_size (player g) / 2"
  shows "p_x (player (Player_move g)) = p_x (player g)"
    and "p_y (player (Player_move g)) = p_y (player g)"
  unfolding Player_move_def Let_def using assms by simp_all

lemma Player_move_cong:
  assumes "player g' = player g" "keys g' = keys g" "joystickState g' = joystickState g"
   "canvas_width g' = canvas_width g" "canvas_height g' = canvas_height g"
  shows "player (Player_move g') = player (Player_move g)"
proof -
  have sel: "player (h\<lparr>player := X\<rparr>) = X" for h :: game and X
    by simp
  show ?thesis
    unfolding Player_move_def Let_def by (simp only: assms sel)
qed

lemma Player_effects_eq:
  "Player_effects g =
     g\<lparr>clock_reads := Suc (clock_reads g),
       player := (player g)
         \<lparr>currentShotDelay :=
            (if clock g (clock_reads g) < tripleShotEndTime (player g) then 300
             else defaultShotDelay (player g)),
          bulletDamageMultiplier :=
            (if clock g (clock_reads g) < damageBoostEndTime (player g)
             then DAMAGE_BOOST_MULTIPLIER else 1)\<rparr>\<rparr>"
  by (simp add: Player_effects_def Date_now_def Let_def)

lemma bullets_shoot:
  assumes "clock g (clock_reads g) - lastShotTime (player g) > currentShotDelay (player g)"
  shows "bullets (shoot g) = bullets g @
     map (\<lambda>a. new_Bullet (p_x (player g) + cos a * (p_size (player g) / 2 + 5))
                          (p_y (player g) + sin a * (p_size (player g) / 2 + 5)) BULLET_SIZE a)
       (if tripleShotEndTime (player g) > clock g (clock_reads g)
        then [aimAngle g - 0.35, aimAngle g, aimAngle g + 0.35] else [aimAngle g])"
  using assms by (simp add: shoot_def Date_now_def createBullet_def Let_def aimAngle_def)

lemma shoot_frame:
  "p_x (player (shoot g)) = p_x (player g)" "p_y (player (shoot g)) = p_y (player g)"
  "p_size (player (shoot g)) = p_size (player g)" "p_health (player (shoot g)) = p_health (player g)"
  "tripleShotEndTime (player (shoot g)) = tripleShotEndTime (player g)"
  "damageBoostEndTime (player (shoot g)) = damageBoostEndTime (player g)"
  "bulletDamageMultiplier (player (shoot g)) = bulletDamageMultiplier (player g)"
  "items (shoot g) = items g" "zombies (shoot g) = zombies g"
  "score (shoot g) = score g" "clock (shoot g) = clock g"
  "canvas_width (shoot g) = canvas_width g" "canvas_height (shoot g) = canvas_height g"
  "isGameOver (shoot g) = isGameOver g"
  by (simp_all add: shoot_def Date_now_def createBullet_def Let_def)

lemma Player_update_frame:
  "items (Player_update g) = items g" "zombies (Player_update g) = zombies g"
  "score (Player_update g) = score g" "clock (Player_update g) = clock g"
  "canvas_width (Player_update g) = canvas_width g"
  "canvas_height (Player_update g) = canvas_height g"
  "isGameOver (Player_update g) = isGameOver g"
proof -
  obtain x y where m: "Player_move g = g\<lparr>player := (player g)\<lparr>p_x := x, p_y := y\<rparr>\<rparr>"
    using Player_move_frame by blast
  show "items (Player_update g) = items g" "zombies (Player_update g) = zombies g"
    "score (Player_update g) = score g" "clock (Player_update g) = clock g"
    "canvas_width (Player_update g) = canvas_width g"
    "canvas_height (Player_update g) = canvas_height g"
    "isGameOver (Player_update g) = isGameOver g"
    unfolding Player_update_def Let_def m
    by (simp_all add: updateStatsDisplay_frame shoot_frame Player_effects_eq)
qed

lemma Player_update_player:
  "p_x (player (Player_update g)) = p_x (player (Player_move g))"
  "p_y (player (Player_update g)) = p_y (player (Player_move g))"
  "p_size (player (Player_update g)) = p_size (player g)"
  "p_health (player (Player_update g)) = p_health (player g)"
  "tripleShotEndTime (player (Player_update g)) = tripleShotEndTime (player g)"
  "damageBoostEndTime (player (Player_update g)) = damageBoostEndTime (player g)"
  "bulletDamageMultiplier (player (Player_update g)) =
     (if clock g (clock_reads g) < damageBoostEndTime (player g)
      then DAMAGE_BOOST_MULTIPLIER else 1)"
  "healthValueText (stats (Player_update g)) = max 0 (p_health (player g))"
  "healthBarValue (stats (Player_update g)) = max 0 (p_health (player g))"
proof -
  obtain x y where m: "Player_move g = g\<lparr>player := (player g)\<lparr>p_x := x, p_y := y\<rparr>\<rparr>"
    using Player_move_frame by blast
  show "p_x (player (Player_update g)) = p_x (player (Player_move g))"
    "p_y (player (Player_update g)) = p_y (player (Player_move g))"
    "p_size (player (Player_update g)) = p_size (player g)"
    "p_health (player (Player_update g)) = p_health (player g)"
    "tripleShotEndTime (player (Player_update g)) = tripleShotEndTime (player g)"
    "damageBoostEndTime (player (Player_update g)) = damageBoostEndTime (player g)"
    "bulletDamageMultiplier (player (Player_update g)) =
       (if clock g (clock_reads g) < damageBoostEndTime (player g)
        then DAMAGE_BOOST_MULTIPLIER else 1)"
    "healthValueText (stats (Player_update g)) = max 0 (p_health (player g))"
    "healthBarValue (stats (Player_update g)) = max 0 (p_health (player g))"
    unfolding Player_update_def Let_def m
    by (simp_all add: updateStatsDisplay_frame shoot_frame Player_effects_eq)
qed

lemma Player_update_bullets:
  "\<not> isFiring (mouse g) \<Longrightarrow> bullets (Player_update g) = bullets g"
proof -
  obtain x y where m: "Player_move g = g\<lparr>player := (player g)\<lparr>p_x := x, p_y := y\<rparr>\<rparr>"
    using Player_move_frame by blast
  assume "\<not> isFiring (mouse g)"
  then show ?thesis
    unfolding Player_update_def Let_def m
    by (simp add: updateStatsDisplay_frame Player_effects_eq)
qed

lemma applyUpgrade_damage_boost:
  "applyUpgrade ''damage_boost'' g =
     g\<lparr>clock_reads := Suc (clock_reads g),
       player := (player g)\<lparr>damageBoostEndTime := clock g (clock_reads g) + UPGRADE_DURATION\<rparr>\<rparr>"
  by (simp add: applyUpgrade_def Date_now_def)

lemma applyUpgrade_frame:
  "p_x (player (applyUpgrade ty g)) = p_x (player g)"
  "p_y (player (applyUpgrade ty g)) = p_y (player g)"
  "p_size (player (applyUpgrade ty g)) = p_size (player g)"
  "bulletDamageMultiplier (player (applyUpgrade ty g)) = bulletDamageMultiplier (player g)"
  "clock (applyUpgrade ty g) = clock g"
  "canvas_width (applyUpgrade ty g) = canvas_width g"
  "canvas_height (applyUpgrade ty g) = canvas_height g"
  "bullets (applyUpgrade ty g) = bullets g"
  "zombies (applyUpgrade ty g) = zombies g"
  "items (applyUpgrade ty g) = items g"
  "score (applyUpgrade ty g) = score g"
  "isGameOver (applyUpgrade ty g) = isGameOver g"
  by (simp_all add: applyUpgrade_def Date_now_def Let_def)

lemma applyUpgrade_stats: "stats (applyUpgrade ty g) = stats g"
  by (simp add: applyUpgrade_def Date_now_def Let_def)

lemma applyUpgrade_health:
  "p_health (player g) \<le> MAX_HEALTH \<Longrightarrow> p_health (player (applyUpgrade ty g)) \<le> MAX_HEALTH"
  by (simp add: applyUpgrade_def Date_now_def Let_def)

lemma boosted_sel:
  "damageBoostEndTime (player (boosted t)) = 15000"
  "clock (boosted t) = (\<lambda>_. t)"
  by (simp_all add: boosted_def applyUpgrade_damage_boost UPGRADE_DURATION_def new_Player_def)

subsection \<open>Zombies\<close>

lemma attackPlayer_frame:
  "(player (snd (attackPlayer z g)))\<lparr>p_health := h\<rparr> = (player g)\<lparr>p_health := h\<rparr>"
  "p_health (player (snd (attackPlayer z g))) \<le> p_health (player g)"
  "items (snd (attackPlayer z g)) = items g" "bullets (snd (attackPlayer z g)) = bullets g"
  "score (snd (attackPlayer z g)) = score g" "clock (snd (attackPlayer z g)) = clock g"
  "canvas_width (snd (attackPlayer z g)) = canvas_width g"
  "canvas_height (snd (attackPlayer z g)) = canvas_height g"
  "stats (snd (attackPlayer z g)) = stats g"
  by (simp_all add: attackPlayer_def Date_now_def gameOver_def Let_def ZOMBIE_DAMAGE_def)

lemma Zombie_update_frame:
  "(player (snd (Zombie_update z g)))\<lparr>p_health := h\<rparr> = (player g)\<lparr>p_health := h\<rparr>"
  "p_health (player (snd (Zombie_update z g))) \<le> p_health (player g)"
  "items (snd (Zombie_update z g)) = items g" "bullets (snd (Zombie_update z g)) = bullets g"
  "score (snd (Zombie_update z g)) = score g" "clock (snd (Zombie_update z g)) = clock g"
  "canvas_width (snd (Zombie_update z g)) = canvas_width g"
  "canvas_height (snd (Zombie_update z g)) = canvas_height g"
  "stats (snd (Zombie_update z g)) = stats g"
  by (simp_all add: Zombie_update_def Let_def attackPlayer_frame)

lemma Zombie_update_health:
  "p_health (player (snd (Zombie_update z g))) =
     (if dist2d (z_x z + cos (atan2 (p_y (player g) - z_y z) (p_x (player g) - z_x z)) * ZOMBIE_SPEED)
                (z_y z + sin (atan2 (p_y (player g) - z_y z) (p_x (player g) - z_x z)) * ZOMBIE_SPEED)
           (p_x (player g)) (p_y (player g)) < z_size z / 2 + p_size (player g) / 2
         \<and> clock g (clock_reads g) - lastAttackTime z > ATTACK_DELAY z
      then p_health (player g) - ZOMBIE_DAMAGE else p_health (player g))"
  unfolding Zombie_update_def attackPlayer_def Let_def
  by (simp add: Date_now_def gameOver_def)

lemma Zombie_update_position:
  "p_x (player (snd (Zombie_update z g))) = p_x (player g)"
  "p_y (player (snd (Zombie_update z g))) = p_y (player g)"
  "p_size (player (snd (Zombie_update z g))) = p_size (player g)"
proof -
  let ?p = "player (snd (Zombie_update z g))"
  have eq: "?p\<lparr>p_health := 0\<rparr> = (player g)\<lparr>p_health := 0\<rparr>"
    by (rule Zombie_update_frame)
  have "p_x (?p\<lparr>p_health := 0\<rparr>) = p_x ?p" "p_y (?p\<lparr>p_health := 0\<rparr>) = p_y ?p"
    "p_size (?p\<lparr>p_health := 0\<rparr>) = p_size ?p"
    by simp_all
  then show "p_x ?p = p_x (player g)" "p_y ?p = p_y (player g)" "p_size ?p = p_size (player g)"
    unfolding eq by simp_all
qed

lemma Zombie_update_far:
  assumes "\<not> dist2d (z_x z + cos (atan2 (p_y (player g) - z_y z) (p_x (player g) - z_x z)) * ZOMBIE_SPEED)
                (z_y z + sin (atan2 (p_y (player g) - z_y z) (p_x (player g) - z_x z)) * ZOMBIE_SPEED)
           (p_x (player g)) (p_y (player g)) < z_size z / 2 + p_size (player g) / 2"
  shows "Zombie_update z g =
     (z\<lparr>z_x := z_x z + cos (atan2 (p_y (player g) - z_y z) (p_x (player g) - z_x z)) * ZOMBIE_SPEED,
        z_y := z_y z + sin (atan2 (p_y (player g) - z_y z) (p_x (player g) - z_x z)) * ZOMBIE_SPEED\<rparr>, g)"
  unfolding Zombie_update_def Let_def using assms by simp

lemma zombies_forEach_frame:
  "(player (snd (forEach_st Zombie_update zs g)))\<lparr>p_health := h\<rparr> = (player g)\<lparr>p_health := h\<rparr>
   \<and> p_health (player (snd (forEach_st Zombie_update zs g))) \<le> p_health (player g)
   \<and> items (snd (forEach_st Zombie_update zs g)) = items g
   \<and> bullets (snd (forEach_st Zombie_update zs g)) = bullets g
   \<and> score (snd (forEach_st Zombie_update zs g)) = score g
   \<and> clock (snd (forEach_st Zombie_update zs g)) = clock g
   \<and> canvas_width (snd (forEach_st Zombie_update zs g)) = canvas_width g
   \<and> canvas_height (snd (forEach_st Zombie_update zs g)) = canvas_height g
   \<and> stats (snd (forEach_st Zombie_update zs g)) = stats g"
proof -
  let ?P = "\<lambda>s :: game. (player s)\<lparr>p_health := h\<rparr> = (player g)\<lparr>p_health := h\<rparr>
   \<and> p_health (player s) \<le> p_health (player g) \<and> items s = items g \<and> bullets s = bullets g
   \<and> score s = score g \<and> clock s = clock g \<and> canvas_width s = canvas_width g
   \<and> canvas_height s = canvas_height g \<and> stats s = stats g"
  have "?P (snd (forEach_st Zombie_update zs g))"
  proof (rule forEach_st_inv [where P = ?P])
    fix a and s :: game
    assume "?P s"
    then show "?P (snd (Zombie_update a s))"
      using Zombie_update_frame(2) [of a s]
      by (simp add: Zombie_update_frame(1,3-))
  qed simp
  then show ?thesis by simp
qed

lemma update_entities_eq:
  "update_entities g =
     (snd (forEach_st Zombie_update (zombies g)
        ((Player_update g)\<lparr>bullets := map Bullet_update (bullets (Player_update g))\<rparr>)))
     \<lparr>zombies := fst (forEach_st Zombie_update (zombies g)
        ((Player_update g)\<lparr>bullets := map Bullet_update (bullets (Player_update g))\<rparr>))\<rparr>"
  by (simp add: update_entities_def Let_def case_prod_beta Player_update_frame)

lemma update_entities_sel:
  "player (update_entities g) =
     player (snd (forEach_st Zombie_update (zombies (Player_update g))
        ((Player_update g)\<lparr>bullets := map Bullet_update (bullets (Player_update g))\<rparr>)))"
  "items (update_entities g) = items g"
  "score (update_entities g) = score g"
  "clock (update_entities g) = clock g"
  "canvas_width (update_entities g) = canvas_width g"
  "canvas_height (update_entities g) = canvas_height g"
  "stats (update_entities g) = stats (Player_update g)"
  using zombies_forEach_frame [where zs = "zombies (Player_update g)"
      and g = "(Player_update g)\<lparr>bullets := map Bullet_update (bullets (Player_update g))\<rparr>"]
  by (simp_all add: update_entities_def Let_def Player_update_frame case_prod_beta)

lemma update_entities_player:
  "p_x (player (update_entities g)) = p_x (player (Player_move g))"
  "p_y (player (update_entities g)) = p_y (player (Player_move g))"
  "p_size (player (update_entities g)) = p_size (player g)"
  "p_health (player (update_entities g)) \<le> p_health (player g)"
  "damageBoostEndTime (player (update_entities g)) = damageBoostEndTime (player g)"
  "bulletDamageMultiplier (player (update_entities g)) =
     (if clock g (clock_reads g) < damageBoostEndTime (player g)
      then DAMAGE_BOOST_MULTIPLIER else 1)"
proof -
  let ?g1 = "(Player_update g)\<lparr>bullets := map Bullet_update (bullets (Player_update g))\<rparr>"
  let ?p = "player (snd (forEach_st Zombie_update (zombies (Player_update g)) ?g1))"
  have eq: "?p\<lparr>p_health := 0\<rparr> = (player (Player_update g))\<lparr>p_health := 0\<rparr>"
    and le: "p_health ?p \<le> p_health (player (Player_update g))"
    using zombies_forEach_frame [where h = 0 and zs = "zombies (Player_update g)" and g = ?g1]
    by simp_all
  have "p_x (?p\<lparr>p_health := 0\<rparr>) = p_x ?p" "p_y (?p\<lparr>p_health := 0\<rparr>) = p_y ?p"
    "p_size (?p\<lparr>p_health := 0\<rparr>) = p_size ?p"
    "damageBoostEndTime (?p\<lparr>p_health := 0\<rparr>) = damageBoostEndTime ?p"
    "bulletDamageMultiplier (?p\<lparr>p_health := 0\<rparr>) = bulletDamageMultiplier ?p"
    by simp_all
  then have f: "p_x ?p = p_x (player (Player_update g))" "p_y ?p = p_y (player (Player_update g))"
    "p_size ?p = p_size (player (Player_update g))"
    "damageBoostEndTime ?p = damageBoostEndTime (player (Player_update g))"
    "bulletDamageMultiplier ?p = bulletDamageMultiplier (player (Player_update g))"
    unfolding eq by simp_all
  show "p_x (player (update_entities g)) = p_x (player (Player_move g))"
    "p_y (player (update_entities g)) = p_y (player (Player_move g))"
    "p_size (player (update_entities g)) = p_size (player g)"
    "p_health (player (update_entities g)) \<le> p_health (player g)"
    "damageBoostEndTime (player (update_entities g)) = damageBoostEndTime (player g)"
    "bulletDamageMultiplier (player (update_entities g)) =
       (if clock g (clock_reads g) < damageBoostEndTime (player g)
        then DAMAGE_BOOST_MULTIPLIER else 1)"
    using f le by (simp_all add: update_entities_sel(1) Player_update_player)
qed

subsection \<open>Item phase\<close>

lemma item_filter_eq:
  "item_filter it g =
     (if clock g (clock_reads g) - creationTime it > ITEM_LIFETIME
      then (None, g\<lparr>clock_reads := Suc (clock_reads g)\<rparr>)
      else if touches (player g) it
      then (None, applyUpgrade (i_type it) (g\<lparr>clock_reads := Suc (clock_reads g)\<rparr>))
      else (Some it, g\<lparr>clock_reads := Suc (clock_reads g)\<rparr>))"
  by (simp add: item_filter_def Date_now_def)

lemma item_filter_frame:
  "p_x (player (snd (item_filter it g))) = p_x (player g)"
  "p_y (player (snd (item_filter it g))) = p_y (player g)"
  "p_size (player (snd (item_filter it g))) = p_size (player g)"
  "bulletDamageMultiplier (player (snd (item_filter it g))) = bulletDamageMultiplier (player g)"
  "clock (snd (item_filter it g)) = clock g"
  "canvas_width (snd (item_filter it g)) = canvas_width g"
  "canvas_height (snd (item_filter it g)) = canvas_height g"
  "bullets (snd (item_filter it g)) = bullets g"
  "zombies (snd (item_filter it g)) = zombies g"
  "score (snd (item_filter it g)) = score g"
  "isGameOver (snd (item_filter it g)) = isGameOver g"
  by (simp_all add: item_filter_eq applyUpgrade_frame)

lemma item_filter_health:
  "p_health (player g) \<le> MAX_HEALTH \<Longrightarrow> p_health (player (snd (item_filter it g))) \<le> MAX_HEALTH"
  using applyUpgrade_health [of "g\<lparr>clock_reads := Suc (clock_reads g)\<rparr>"]
  by (simp add: item_filter_eq)

lemma items_pass_steady_clock:
  "\<forall>n. clock g n = now \<Longrightarrow> p_x (player g) = px \<Longrightarrow> p_y (player g) = py \<Longrightarrow>
   p_size (player g) = ps \<Longrightarrow>
   fst (filter_st item_filter its g) =
     filter (\<lambda>it. \<not> now - creationTime it > ITEM_LIFETIME
                  \<and> \<not> dist2d px py (i_x it) (i_y it) < ps / 2 + i_size it / 2) its"
proof (induction its arbitrary: g)
  case Nil
  then show ?case by simp
next
  case (Cons it its)
  let ?g1 = "snd (item_filter it g)"
  have "\<forall>n. clock ?g1 n = now" "p_x (player ?g1) = px" "p_y (player ?g1) = py"
    "p_size (player ?g1) = ps"
    using Cons.prems by (simp_all add: item_filter_frame)
  from Cons.IH [OF this] have
    rest: "fst (filter_st item_filter its ?g1) =
       filter (\<lambda>it. \<not> now - creationTime it > ITEM_LIFETIME
                  \<and> \<not> dist2d px py (i_x it) (i_y it) < ps / 2 + i_size it / 2) its" .
  have head: "fst (item_filter it g) =
       (if \<not> now - creationTime it > ITEM_LIFETIME
           \<and> \<not> dist2d px py (i_x it) (i_y it) < ps / 2 + i_size it / 2
        then Some it else None)"
    using Cons.prems by (simp add: item_filter_eq touches_def)
  from head rest show ?case
    by (auto split: prod.splits option.splits)
qed

lemma item_phase_sel:
  "items (item_phase g) = fst (filter_st item_filter (items g) g)"
  "player (item_phase g) = player (snd (filter_st item_filter (items g) g))"
  "bullets (item_phase g) = bullets (snd (filter_st item_filter (items g) g))"
  "zombies (item_phase g) = zombies (snd (filter_st item_filter (items g) g))"
  "score (item_phase g) = score (snd (filter_st item_filter (items g) g))"
  "clock (item_phase g) = clock (snd (filter_st item_filter (items g) g))"
  "isGameOver (item_phase g) = isGameOver (snd (filter_st item_filter (items g) g))"
  "canvas_width (item_phase g) = canvas_width (snd (filter_st item_filter (items g) g))"
  "canvas_height (item_phase g) = canvas_height (snd (filter_st item_filter (items g) g))"
  by (simp_all add: item_phase_def split: prod.splits)

lemma item_phase_steady_clock:
  assumes "\<forall>n. clock g n = now"
  shows "items (item_phase g) =
     filter (\<lambda>it. \<not> now - creationTime it > ITEM_LIFETIME \<and> \<not> touches (player g) it) (items g)"
  using items_pass_steady_clock [OF assms refl refl refl, of "items g"]
  by (simp add: item_phase_sel touches_def)

lemma items_pass_frame:
  "p_x (player (snd (filter_st item_filter its g))) = p_x (player g)
   \<and> p_y (player (snd (filter_st item_filter its g))) = p_y (player g)
   \<and> p_size (player (snd (filter_st item_filter its g))) = p_size (player g)
   \<and> bulletDamageMultiplier (player (snd (filter_st item_filter its g)))
       = bulletDamageMultiplier (player g)
   \<and> clock (snd (filter_st item_filter its g)) = clock g
   \<and> canvas_width (snd (filter_st item_filter its g)) = canvas_width g
   \<and> canvas_height (snd (filter_st item_filter its g)) = canvas_height g
   \<and> bullets (snd (filter_st item_filter its g)) = bullets g
   \<and> zombies (snd (filter_st item_filter its g)) = zombies g
   \<and> score (snd (filter_st item_filter its g)) = score g
   \<and> isGameOver (snd (filter_st item_filter its g)) = isGameOver g
   \<and> stats (snd (filter_st item_filter its g)) = stats g"
proof -
  let ?P = "\<lambda>s :: game. p_x (player s) = p_x (player g) \<and> p_y (player s) = p_y (player g)
   \<and> p_size (player s) = p_size (player g)
   \<and> bulletDamageMultiplier (player s) = bulletDamageMultiplier (player g)
   \<and> clock s = clock g \<and> canvas_width s = canvas_width g \<and> canvas_height s = canvas_height g
   \<and> bullets s = bullets g \<and> zombies s = zombies g \<and> score s = score g
   \<and> isGameOver s = isGameOver g \<and> stats s = stats g"
  have "?P (snd (filter_st item_filter its g))"
  proof (rule filter_st_inv [where P = ?P])
    fix a and s :: game
    assume "?P s"
    then show "?P (snd (item_filter a s))"
      by (simp add: item_filter_frame) (simp add: item_filter_eq applyUpgrade_stats)
  qed simp
  then show ?thesis by simp
qed

lemma items_pass_health:
  assumes "p_health (player g) \<le> MAX_HEALTH"
  shows "p_health (player (snd (filter_st item_filter its g))) \<le> MAX_HEALTH"
  by (rule filter_st_inv [where P = "\<lambda>s. p_health (player s) \<le> MAX_HEALTH"])
     (simp_all add: item_filter_health assms)

lemma item_phase_frame:
  "p_x (player (item_phase g)) = p_x (player g)"
  "p_y (player (item_phase g)) = p_y (player g)"
  "p_size (player (item_phase g)) = p_size (player g)"
  "bulletDamageMultiplier (player (item_phase g)) = bulletDamageMultiplier (player g)"
  "clock (item_phase g) = clock g"
  "canvas_width (item_phase g) = canvas_width g"
  "canvas_height (item_phase g) = canvas_height g"
  "bullets (item_phase g) = bullets g"
  "zombies (item_phase g) = zombies g"
  "score (item_phase g) = score g"
  "isGameOver (item_phase g) = isGameOver g"
  "stats (item_phase g) = stats g"
  using items_pass_frame [of "items g" g]
  by (simp_all add: item_phase_def case_prod_beta)

lemma item_phase_health:
  "p_health (player g) \<le> MAX_HEALTH \<Longrightarrow> p_health (player (item_phase g)) \<le> MAX_HEALTH"
  using items_pass_health [of g "items g"]
  by (simp add: item_phase_def case_prod_beta)

lemma item_phase_single:
  "items g = [it] \<Longrightarrow> player (item_phase g) = player (snd (item_filter it g))"
  by (simp add: item_phase_def case_prod_beta split: option.splits)

subsection \<open>Collision phase\<close>

lemma dropItem_frame [simp]:
  "player (dropItem z g) = player g"
  "zombies (dropItem z g) = zombies g"
  "bullets (dropItem z g) = bullets g"
  "score (dropItem z g) = score g"
  "canvas_width (dropItem z g) = canvas_width g"
  "canvas_height (dropItem z g) = canvas_height g"
  "clock (dropItem z g) = clock g"
  "isGameOver (dropItem z g) = isGameOver g"
  by (simp_all add: dropItem_def Math_random_def new_Item_def Date_now_def Let_def)

lemma dropItem_stats: "stats (dropItem z g) = stats g"
  by (simp add: dropItem_def Math_random_def new_Item_def Date_now_def Let_def)

lemma dropItem_items:
  "items (dropItem z g) = items g
   \<or> (\<exists>it. items (dropItem z g) = items g @ [it] \<and> creationTime it = clock g (clock_reads g))"
  by (simp add: dropItem_def Math_random_def new_Item_def Date_now_def Let_def)

lemma zombie_filter_frame:
  "player (snd (snd (zombie_filter b z hg))) = player (snd hg)"
  "canvas_width (snd (snd (zombie_filter b z hg))) = canvas_width (snd hg)"
  "canvas_height (snd (snd (zombie_filter b z hg))) = canvas_height (snd hg)"
  "clock (snd (snd (zombie_filter b z hg))) = clock (snd hg)"
  "bullets (snd (snd (zombie_filter b z hg))) = bullets (snd hg)"
  "isGameOver (snd (snd (zombie_filter b z hg))) = isGameOver (snd hg)"
  by (cases hg; simp add: Let_def)+

lemma zombie_pass_frame:
  "player (snd (snd (filter_st (zombie_filter b) zs hg))) = player (snd hg)"
  "canvas_width (snd (snd (filter_st (zombie_filter b) zs hg))) = canvas_width (snd hg)"
  "canvas_height (snd (snd (filter_st (zombie_filter b) zs hg))) = canvas_height (snd hg)"
  "clock (snd (snd (filter_st (zombie_filter b) zs hg))) = clock (snd hg)"
  "bullets (snd (snd (filter_st (zombie_filter b) zs hg))) = bullets (snd hg)"
  "isGameOver (snd (snd (filter_st (zombie_filter b) zs hg))) = isGameOver (snd hg)"
proof -
  show "player (snd (snd (filter_st (zombie_filter b) zs hg))) = player (snd hg)"
    by (rule filter_st_inv [where P = "\<lambda>s. player (snd s) = player (snd hg)"])
       (simp_all add: zombie_filter_frame)
  show "canvas_width (snd (snd (filter_st (zombie_filter b) zs hg))) = canvas_width (snd hg)"
    by (rule filter_st_inv [where P = "\<lambda>s. canvas_width (snd s) = canvas_width (snd hg)"])
       (simp_all add: zombie_filter_frame)
  show "canvas_height (snd (snd (filter_st (zombie_filter b) zs hg))) = canvas_height (snd hg)"
    by (rule filter_st_inv [where P = "\<lambda>s. canvas_height (snd s) = canvas_height (snd hg)"])
       (simp_all add: zombie_filter_frame)
  show "clock (snd (snd (filter_st (zombie_filter b) zs hg))) = clock (snd hg)"
    by (rule filter_st_inv [where P = "\<lambda>s. clock (snd s) = clock (snd hg)"])
       (simp_all add: zombie_filter_frame)
  show "bullets (snd (snd (filter_st (zombie_filter b) zs hg))) = bullets (snd hg)"
    by (rule filter_st_inv [where P = "\<lambda>s. bullets (snd s) = bullets (snd hg)"])
       (simp_all add: zombie_filter_frame)
  show "isGameOver (snd (snd (filter_st (zombie_filter b) zs hg))) = isGameOver (snd hg)"
    by (rule filter_st_inv [where P = "\<lambda>s. isGameOver (snd s) = isGameOver (snd hg)"])
       (simp_all add: zombie_filter_frame)
qed

lemma zombie_pass_zombies:
  "player g = p \<Longrightarrow>
   fst (filter_st (zombie_filter b) zs (h, g)) =
     map (\<lambda>z. if hits b z then z\<lparr>z_health := z_health z - 10 * bulletDamageMultiplier p\<rparr> else z)
       (filter (\<lambda>z. \<not> (hits b z \<and> z_health z - 10 * bulletDamageMultiplier p \<le> 0)) zs)"
proof (induction zs arbitrary: h g)
  case Nil
  then show ?case by simp
next
  case (Cons z zs)
  obtain r h1 g1 where step: "zombie_filter b z (h, g) = (r, (h1, g1))"
    by (metis prod.exhaust)
  have "player g1 = p"
    using zombie_filter_frame(1) [of b z "(h, g)"] step Cons.prems by simp
  from Cons.IH [OF this, of h1] step Cons.prems show ?case
    by (auto simp add: Let_def split: prod.splits if_splits)
qed

lemma zombie_pass_hit:
  "player g = p \<Longrightarrow>
   fst (snd (filter_st (zombie_filter b) zs (h, g))) =
     (h \<or> (\<exists>z \<in> set zs. hits b z \<and> 0 < z_health z - 10 * bulletDamageMultiplier p))"
proof (induction zs arbitrary: h g)
  case Nil
  then show ?case by simp
next
  case (Cons z zs)
  obtain r h1 g1 where step: "zombie_filter b z (h, g) = (r, (h1, g1))"
    by (metis prod.exhaust)
  have "player g1 = p"
    using zombie_filter_frame(1) [of b z "(h, g)"] step Cons.prems by simp
  from Cons.IH [OF this, of h1] step Cons.prems show ?case
    by (auto simp add: Let_def split: prod.splits if_splits option.splits)
qed

lemma zombie_pass_score:
  "player g = p \<Longrightarrow>
   score (snd (snd (filter_st (zombie_filter b) zs (h, g)))) =
     score g + 10 * int (length (filter (\<lambda>z. hits b z \<and> z_health z - 10 * bulletDamageMultiplier p \<le> 0) zs))"
proof (induction zs arbitrary: h g)
  case Nil
  then show ?case by simp
next
  case (Cons z zs)
  obtain r h1 g1 where step: "zombie_filter b z (h, g) = (r, (h1, g1))"
    by (metis prod.exhaust)
  have "player g1 = p"
    using zombie_filter_frame(1) [of b z "(h, g)"] step Cons.prems by simp
  from Cons.IH [OF this, of h1] step Cons.prems show ?case
    by (auto simp add: Let_def split: prod.splits if_splits option.splits)
qed

lemma zombie_filter_items:
  assumes "clock (snd hg) = c" and "set its \<subseteq> set (items (snd hg))"
    and "\<forall>it \<in> set (items (snd hg)). it \<in> set its \<or> creationTime it \<in> range c"
  shows "clock (snd (snd (zombie_filter b z hg))) = c
     \<and> stats (snd (snd (zombie_filter b z hg))) = stats (snd hg)
     \<and> set its \<subseteq> set (items (snd (snd (zombie_filter b z hg))))
     \<and> (\<forall>it \<in> set (items (snd (snd (zombie_filter b z hg)))). it \<in> set its \<or> creationTime it \<in> range c)"
proof (cases hg)
  case (Pair h g)
  let ?g1 = "g\<lparr>score := score g + 10\<rparr>"
  let ?z1 = "z\<lparr>z_health := z_health z - 10 * bulletDamageMultiplier (player g)\<rparr>"
  from dropItem_items [of ?z1 ?g1] assms Pair
  have "set its \<subseteq> set (items (dropItem ?z1 ?g1))
     \<and> (\<forall>it \<in> set (items (dropItem ?z1 ?g1)). it \<in> set its \<or> creationTime it \<in> range c)"
    by auto
  then show ?thesis using assms Pair
    by (simp add: Let_def dropItem_stats)
qed

lemma zombies_pass_items:
  assumes "clock (snd hg) = c" and "set its \<subseteq> set (items (snd hg))"
    and "\<forall>it \<in> set (items (snd hg)). it \<in> set its \<or> creationTime it \<in> range c"
  shows "clock (snd (snd (filter_st (zombie_filter b) zs hg))) = c
     \<and> stats (snd (snd (filter_st (zombie_filter b) zs hg))) = stats (snd hg)
     \<and> set its \<subseteq> set (items (snd (snd (filter_st (zombie_filter b) zs hg))))
     \<and> (\<forall>it \<in> set (items (snd (snd (filter_st (zombie_filter b) zs hg)))).
           it \<in> set its \<or> creationTime it \<in> range c)"
proof -
  let ?P = "\<lambda>s :: bool \<times> game. clock (snd s) = c \<and> stats (snd s) = stats (snd hg)
     \<and> set its \<subseteq> set (items (snd s))
     \<and> (\<forall>it \<in> set (items (snd s)). it \<in> set its \<or> creationTime it \<in> range c)"
  have "?P (snd (filter_st (zombie_filter b) zs hg))"
  proof (rule filter_st_inv [where P = ?P])
    fix a and s :: "bool \<times> game"
    assume "?P s"
    then show "?P (snd (zombie_filter b a s))"
      using zombie_filter_items [of s c its b a] by simp
  qed (simp add: assms)
  then show ?thesis by simp
qed

lemma bullet_filter_zombies:
  "zombies (snd (bullet_filter b g)) =
     map (\<lambda>z. if hits b z then z\<lparr>z_health := z_health z - 10 * bulletDamageMultiplier (player g)\<rparr> else z)
       (filter (\<lambda>z. \<not> (hits b z \<and> z_health z - 10 * bulletDamageMultiplier (player g) \<le> 0)) (zombies g))"
  using zombie_pass_zombies [of g "player g" b "zombies g" False]
  by (auto simp add: bullet_filter_def Let_def split: prod.splits)

lemma bullet_filter_frame:
  "player (snd (bullet_filter b g)) = player g"
  "canvas_width (snd (bullet_filter b g)) = canvas_width g"
  "canvas_height (snd (bullet_filter b g)) = canvas_height g"
  "clock (snd (bullet_filter b g)) = clock g"
  "bullets (snd (bullet_filter b g)) = bullets g"
  "isGameOver (snd (bullet_filter b g)) = isGameOver g"
  using zombie_pass_frame [of b "zombies g" "(False, g)"]
  by (auto simp add: bullet_filter_def Let_def split: prod.splits)

lemma bullet_filter_score:
  "score (snd (bullet_filter b g)) =
     score g + 10 * int (length (filter (\<lambda>z. hits b z \<and> z_health z - 10 * bulletDamageMultiplier (player g) \<le> 0) (zombies g)))"
  using zombie_pass_score [of g "player g" b "zombies g" False]
  by (auto simp add: bullet_filter_def Let_def split: prod.splits)

lemma bullet_filter_kept:
  "fst (bullet_filter b g) =
     (if (\<exists>z \<in> set (zombies g). hits b z \<and> 0 < z_health z - 10 * bulletDamageMultiplier (player g))
         \<or> isOffScreen b g
      then None else Some b)"
proof -
  obtain zs h g1 where pass: "filter_st (zombie_filter b) (zombies g) (False, g) = (zs, (h, g1))"
    by (metis prod.exhaust)
  have h: "h = (\<exists>z \<in> set (zombies g). hits b z \<and> 0 < z_health z - 10 * bulletDamageMultiplier (player g))"
    using zombie_pass_hit [of g "player g" b "zombies g" False] pass by simp
  have "isOffScreen b (g1\<lparr>zombies := zs\<rparr>) = isOffScreen b g"
    using zombie_pass_frame(2,3) [of b "zombies g" "(False, g)"] pass
    by (simp add: isOffScreen_def)
  with h pass show ?thesis
    by (simp add: bullet_filter_def Let_def)
qed

lemma bullet_filter_items:
  assumes "clock g = c" and "set its \<subseteq> set (items g)"
    and "\<forall>it \<in> set (items g). it \<in> set its \<or> creationTime it \<in> range c"
  shows "clock (snd (bullet_filter b g)) = c
     \<and> stats (snd (bullet_filter b g)) = stats g
     \<and> set its \<subseteq> set (items (snd (bullet_filter b g)))
     \<and> (\<forall>it \<in> set (items (snd (bullet_filter b g))). it \<in> set its \<or> creationTime it \<in> range c)"
  using zombies_pass_items [of "(False, g)" c its b "zombies g"] assms
  by (simp add: bullet_filter_def Let_def case_prod_beta)

lemma filter_st_bullets_step:
  "snd (filter_st bullet_filter (b # bs) g) = snd (filter_st bullet_filter bs (snd (bullet_filter b g)))"
  by (simp split: prod.splits option.splits)

lemma collision_phase_sel:
  "zombies (collision_phase g) = zombies (snd (filter_st bullet_filter (bullets g) g))"
  "score (collision_phase g) = score (snd (filter_st bullet_filter (bullets g) g))"
  "player (collision_phase g) = player (snd (filter_st bullet_filter (bullets g) g))"
  "items (collision_phase g) = items (snd (filter_st bullet_filter (bullets g) g))"
  "isGameOver (collision_phase g) = isGameOver (snd (filter_st bullet_filter (bullets g) g))"
  "bullets (collision_phase g) = fst (filter_st bullet_filter (bullets g) g)"
  by (simp_all add: collision_phase_def split: prod.splits)

lemma bullets_pass_frame:
  "player (snd (filter_st bullet_filter bs g)) = player g"
  "canvas_width (snd (filter_st bullet_filter bs g)) = canvas_width g"
  "canvas_height (snd (filter_st bullet_filter bs g)) = canvas_height g"
  "clock (snd (filter_st bullet_filter bs g)) = clock g"
  "isGameOver (snd (filter_st bullet_filter bs g)) = isGameOver g"
proof -
  show "player (snd (filter_st bullet_filter bs g)) = player g"
    by (rule filter_st_inv [where P = "\<lambda>s. player s = player g"])
       (simp_all add: bullet_filter_frame)
  show "canvas_width (snd (filter_st bullet_filter bs g)) = canvas_width g"
    by (rule filter_st_inv [where P = "\<lambda>s. canvas_width s = canvas_width g"])
       (simp_all add: bullet_filter_frame)
  show "canvas_height (snd (filter_st bullet_filter bs g)) = canvas_height g"
    by (rule filter_st_inv [where P = "\<lambda>s. canvas_height s = canvas_height g"])
       (simp_all add: bullet_filter_frame)
  show "clock (snd (filter_st bullet_filter bs g)) = clock g"
    by (rule filter_st_inv [where P = "\<lambda>s. clock s = clock g"])
       (simp_all add: bullet_filter_frame)
  show "isGameOver (snd (filter_st bullet_filter bs g)) = isGameOver g"
    by (rule filter_st_inv [where P = "\<lambda>s. isGameOver s = isGameOver g"])
       (simp_all add: bullet_filter_frame)
qed

lemma player_collision_phase [simp]: "player (collision_phase g) = player g"
  by (simp add: collision_phase_sel bullets_pass_frame)

lemma bullets_pass_keeps:
  "b \<in> set bs \<Longrightarrow> \<forall>z \<in> set (zombies g). \<not> hits b z \<Longrightarrow> \<not> isOffScreen b g \<Longrightarrow>
   b \<in> set (fst (filter_st bullet_filter bs g))"
proof (induction bs arbitrary: g)
  case Nil
  then show ?case by simp
next
  case (Cons a bs)
  let ?g1 = "snd (bullet_filter a g)"
  have miss: "\<forall>z \<in> set (zombies ?g1). \<not> hits b z"
    using Cons.prems(2) by (auto simp add: bullet_filter_zombies)
  have on: "\<not> isOffScreen b ?g1"
    using Cons.prems(3) by (simp add: isOffScreen_def bullet_filter_frame)
  show ?case
  proof (cases "b = a")
    case True
    have "fst (bullet_filter a g) = Some a"
      using Cons.prems(2,3) True by (simp add: bullet_filter_kept)
    then show ?thesis using True
      by (auto split: prod.splits option.splits)
  next
    case False
    then have "b \<in> set bs" using Cons.prems(1) by simp
    from Cons.IH [OF this miss on] show ?thesis
      by (auto split: prod.splits option.splits)
  qed
qed

lemma collision_phase_items:
  "stats (collision_phase g) = stats g
   \<and> set (items g) \<subseteq> set (items (collision_phase g))
   \<and> (\<forall>it \<in> set (items (collision_phase g)). it \<in> set (items g) \<or> creationTime it \<in> range (clock g))"
proof -
  let ?P = "\<lambda>s :: game. clock s = clock g \<and> stats s = stats g
     \<and> set (items g) \<subseteq> set (items s)
     \<and> (\<forall>it \<in> set (items s). it \<in> set (items g) \<or> creationTime it \<in> range (clock g))"
  have "?P (snd (filter_st bullet_filter (bullets g) g))"
  proof (rule filter_st_inv [where P = ?P])
    fix a and s :: game
    assume "?P s"
    then show "?P (snd (bullet_filter a s))"
      using bullet_filter_items [of s "clock g" "items g" a] by simp
  qed simp
  then show ?thesis by (simp add: collision_phase_def case_prod_beta)
qed

lemma collision_phase_single:
  "bullets g = [b] \<Longrightarrow> zombies (collision_phase g) = zombies (snd (bullet_filter b g))"
  "bullets g = [b] \<Longrightarrow> isGameOver (collision_phase g) = isGameOver g"
  by (simp_all add: collision_phase_sel filter_st_bullets_step bullet_filter_frame
      del: filter_st.simps(2))

lemma collision_phase_frame:
  "clock (collision_phase g) = clock g"
  "canvas_width (collision_phase g) = canvas_width g"
  "canvas_height (collision_phase g) = canvas_height g"
  by (simp_all add: collision_phase_def case_prod_beta bullets_pass_frame)

subsection \<open>The whole tick\<close>

lemma check_game_over_frame:
  "player (check_game_over g) = player g" "items (check_game_over g) = items g"
  "zombies (check_game_over g) = zombies g" "score (check_game_over g) = score g"
  "stats (check_game_over g) = stats g"
  by (simp_all add: check_game_over_def gameOver_def)

lemma tick_frame:
  "clock (updateGame g) = clock g"
  "player (updateGame g) = (if isGameOver g then player g
      else player (item_phase (update_entities (spawn_phase g))))"
  "zombies (updateGame g) = (if isGameOver g then zombies g
      else zombies (collision_phase (item_phase (update_entities (spawn_phase g)))))"
  by (simp_all add: updateGame_def check_game_over_def gameOver_def collision_phase_frame
      item_phase_frame update_entities_sel spawn_phase_frame)

lemma updateGame_items:
  assumes "\<not> isGameOver g"
  shows "set (items (item_phase (update_entities (spawn_phase g)))) \<subseteq> set (items (updateGame g))"
    and "\<forall>it \<in> set (items (updateGame g)).
           it \<in> set (items (item_phase (update_entities (spawn_phase g))))
           \<or> creationTime it \<in> range (clock g)"
  using assms collision_phase_items [of "item_phase (update_entities (spawn_phase g))"]
  by (simp_all add: updateGame_def check_game_over_frame item_phase_frame update_entities_sel
      spawn_phase_frame)

lemma item_phase_in_tick:
  assumes "\<forall>n. clock g n = now"
  shows "items (item_phase (update_entities (spawn_phase g))) =
     filter (\<lambda>it. \<not> now - creationTime it > ITEM_LIFETIME \<and> \<not> touches (player (Player_move g)) it)
       (items g)"
proof -
  let ?ue = "update_entities (spawn_phase g)"
  have c: "\<forall>n. clock ?ue n = now"
    using assms by (simp add: update_entities_sel spawn_phase_frame)
  have "player (Player_move (spawn_phase g)) = player (Player_move g)"
    by (rule Player_move_cong) (simp_all add: spawn_phase_frame)
  then have "touches (player ?ue) it = touches (player (Player_move g)) it" for it
    by (intro touches_cong)
       (simp_all add: update_entities_player spawn_phase_frame Player_move_size)
  then show ?thesis
    using item_phase_steady_clock [OF c]
    by (simp add: update_entities_sel spawn_phase_frame)
qed

lemma item_survives_tick:
  assumes "\<forall>n. clock g n = now" and "\<not> now - creationTime it > ITEM_LIFETIME"
    and "it \<in> set (items g)" and "\<not> touches (player (Player_move g)) it"
  shows "it \<in> set (items (updateGame g))"
proof (cases "isGameOver g")
  case True
  then show ?thesis using assms(3) by (simp add: updateGame_def)
next
  case False
  have "it \<in> set (items (item_phase (update_entities (spawn_phase g))))"
    using assms by (simp add: item_phase_in_tick)
  then show ?thesis using updateGame_items(1) [OF False] by blast
qed

lemma item_gone_after_tick:
  assumes "\<not> isGameOver g" and "\<forall>n. clock g n = now" and "now - creationTime it > ITEM_LIFETIME"
  shows "it \<notin> set (items (updateGame g))"
proof
  assume "it \<in> set (items (updateGame g))"
  then have "it \<in> set (items (item_phase (update_entities (spawn_phase g))))
      \<or> creationTime it \<in> range (clock g)"
    using updateGame_items(2) [OF assms(1)] by blast
  moreover have "it \<notin> set (items (item_phase (update_entities (spawn_phase g))))"
    using assms by (simp add: item_phase_in_tick)
  moreover have "creationTime it \<notin> range (clock g)"
    using assms(2,3) by (auto simp add: ITEM_LIFETIME_def)
  ultimately show False by blast
qed

lemma multiplier_at_collision:
  "bulletDamageMultiplier (player (item_phase (update_entities (spawn_phase g))))
     = (if clock g (Suc (clock_reads g)) < damageBoostEndTime (player g)
        then DAMAGE_BOOST_MULTIPLIER else 1)"
  by (simp add: item_phase_frame update_entities_player spawn_phase_frame)

subsection \<open>Scenarios evaluated\<close>

lemma aging_item_far: "\<not> touches (player (Player_move (aging_item t))) old_item"
proof -
  have "p_x (player (Player_move (aging_item t))) = 400"
    "p_y (player (Player_move (aging_item t))) = 400"
    using Player_move_idle [of "aging_item t"]
    by (simp_all add: new_Player_def PLAYER_SIZE_def)
  then show ?thesis
    by (simp add: touches_iff Player_move_size old_item_def new_Player_def config_defs)
qed

lemma boost_pickup_entities:
  "p_x (player (update_entities (spawn_phase boost_pickup))) = 400"
  "p_y (player (update_entities (spawn_phase boost_pickup))) = 400"
  "p_size (player (update_entities (spawn_phase boost_pickup))) = 20"
  "p_health (player (update_entities (spawn_phase boost_pickup))) = 100"
  "bulletDamageMultiplier (player (update_entities (spawn_phase boost_pickup))) = 1"
  "zombies (update_entities (spawn_phase boost_pickup)) = [(new_Zombie 100 400 25)\<lparr>z_x := 101.5\<rparr>]"
  "bullets (update_entities (spawn_phase boost_pickup)) = [(new_Bullet 90 400 5 0)\<lparr>b_x := 100\<rparr>]"
  "items (update_entities (spawn_phase boost_pickup)) = [boost_item]"
  "isGameOver (update_entities (spawn_phase boost_pickup)) = False"
  "clock (update_entities (spawn_phase boost_pickup)) = (\<lambda>_. 5000)"
proof -
  let ?g = boost_pickup
  let ?g1 = "?g\<lparr>clock_reads := Suc 0\<rparr>"
  let ?g2 = "Player_update ?g1"
  let ?g2' = "?g2\<lparr>bullets := map Bullet_update (bullets ?g2)\<rparr>"
  let ?z = "new_Zombie 100 400 25"
  have s1: "spawn_phase ?g = ?g1"
    by (simp add: spawn_phase_idle currentSpawnInterval_def ZOMBIE_SPAWN_INTERVAL_def)
  have idle: "p_x (player (Player_move ?g1)) = 400" "p_y (player (Player_move ?g1)) = 400"
    using Player_move_idle [of ?g1] by (simp_all add: new_Player_sel PLAYER_SIZE_def)
  have p2: "p_x (player ?g2) = 400" "p_y (player ?g2) = 400" "p_size (player ?g2) = 20"
    "p_health (player ?g2) = 100" "bulletDamageMultiplier (player ?g2) = 1"
    using idle by (simp_all add: Player_update_player new_Player_sel PLAYER_SIZE_def MAX_HEALTH_def)
  have far: "Zombie_update ?z ?g2' = (?z\<lparr>z_x := 101.5\<rparr>, ?g2')"
    using Zombie_update_far [of ?z ?g2']
    by (simp add: p2 new_Zombie_sel atan2_def dist2d_horizontal config_defs)
  have ue: "update_entities ?g1 = ?g2'\<lparr>zombies := [?z\<lparr>z_x := 101.5\<rparr>]\<rparr>"
    using far by (simp add: update_entities_eq ZOMBIE_SIZE_def)
  show "p_x (player (update_entities (spawn_phase boost_pickup))) = 400"
    "p_y (player (update_entities (spawn_phase boost_pickup))) = 400"
    "p_size (player (update_entities (spawn_phase boost_pickup))) = 20"
    "p_health (player (update_entities (spawn_phase boost_pickup))) = 100"
    "bulletDamageMultiplier (player (update_entities (spawn_phase boost_pickup))) = 1"
    by (simp_all add: s1 ue p2)
  show "zombies (update_entities (spawn_phase boost_pickup)) = [?z\<lparr>z_x := 101.5\<rparr>]"
    by (simp add: s1 ue)
  show "bullets (update_entities (spawn_phase boost_pickup)) = [(new_Bullet 90 400 5 0)\<lparr>b_x := 100\<rparr>]"
    by (simp add: s1 ue Player_update_bullets Bullet_update_def new_Bullet_def config_defs)
  show "items (update_entities (spawn_phase boost_pickup)) = [boost_item]"
    "isGameOver (update_entities (spawn_phase boost_pickup)) = False"
    "clock (update_entities (spawn_phase boost_pickup)) = (\<lambda>_. 5000)"
    by (simp_all add: s1 ue Player_update_frame)
qed

section \<open>Bullets against zombies\<close>

text \<open>
  C1, as amended. In the collision phase the callback for one bullet tests the bullet
  against every zombie of the collection. Every zombie it overlaps loses
  \<open>10 * bulletDamageMultiplier\<close> health, not only the first one; those whose health drops
  to 0 or below are removed, the others stay with the reduced health, and zombies it does
  not overlap are untouched. If at least one zombie it hit survives the hit, the bullet is
  removed. A bullet that overlaps no zombie is kept exactly when it is on screen, and such
  a bullet of the collection is still in the collection after the whole phase. (What
  happens to a bullet all of whose hits kill is left open here.)
\<close>

theorem bullet_filter_effect:
  "zombies (snd (bullet_filter b g)) =
     map (\<lambda>z. if hits b z then z\<lparr>z_health := z_health z - 10 * bulletDamageMultiplier (player g)\<rparr> else z)
       (filter (\<lambda>z. \<not> (hits b z \<and> z_health z - 10 * bulletDamageMultiplier (player g) \<le> 0)) (zombies g))
   \<and> ((\<exists>z \<in> set (zombies g). hits b z \<and> 0 < z_health z - 10 * bulletDamageMultiplier (player g))
        \<longrightarrow> fst (bullet_filter b g) = None)
   \<and> ((\<forall>z \<in> set (zombies g). \<not> hits b z)
        \<longrightarrow> fst (bullet_filter b g) = (if isOffScreen b g then None else Some b))
   \<and> (b \<in> set (bullets g) \<and> (\<forall>z \<in> set (zombies g). \<not> hits b z) \<and> \<not> isOffScreen b g
        \<longrightarrow> b \<in> set (bullets (collision_phase g)))"
  using bullets_pass_keeps [of b "bullets g" g]
  by (simp add: bullet_filter_zombies bullet_filter_kept collision_phase_sel)

text \<open>
  The theorem on a scene with two zombies 10 apart, a bullet between them and a bullet far
  away: the first bullet damages both zombies and is removed, the second is kept.
\<close>

theorem bullet_filter_effect_witness:
  "hits (new_Bullet 105 100 BULLET_SIZE 0) (new_Zombie 100 100 ZOMBIE_SIZE)
   \<and> hits (new_Bullet 105 100 BULLET_SIZE 0) (new_Zombie 110 100 ZOMBIE_SIZE)
   \<and> fst (bullet_filter (new_Bullet 105 100 BULLET_SIZE 0) pierce_scene) = None
   \<and> map z_health (zombies (snd (bullet_filter (new_Bullet 105 100 BULLET_SIZE 0) pierce_scene))) = [20, 20]
   \<and> new_Bullet 300 300 BULLET_SIZE 0 \<in> set (bullets pierce_scene)
   \<and> \<not> hits (new_Bullet 300 300 BULLET_SIZE 0) (new_Zombie 100 100 ZOMBIE_SIZE)
   \<and> \<not> hits (new_Bullet 300 300 BULLET_SIZE 0) (new_Zombie 110 100 ZOMBIE_SIZE)
   \<and> \<not> isOffScreen (new_Bullet 300 300 BULLET_SIZE 0) pierce_scene
   \<and> fst (bullet_filter (new_Bullet 300 300 BULLET_SIZE 0) pierce_scene) = Some (new_Bullet 300 300 BULLET_SIZE 0)
   \<and> new_Bullet 300 300 BULLET_SIZE 0 \<in> set (bullets (collision_phase pierce_scene))"
proof -
  have a: "hits (new_Bullet 105 100 BULLET_SIZE 0) (new_Zombie 100 100 ZOMBIE_SIZE)"
    "hits (new_Bullet 105 100 BULLET_SIZE 0) (new_Zombie 110 100 ZOMBIE_SIZE)"
    by (simp_all add: config_defs)
  have b: "\<not> hits (new_Bullet 300 300 BULLET_SIZE 0) (new_Zombie 100 100 ZOMBIE_SIZE)"
    "\<not> hits (new_Bullet 300 300 BULLET_SIZE 0) (new_Zombie 110 100 ZOMBIE_SIZE)"
    by (simp_all add: config_defs)
  have c: "\<not> isOffScreen (new_Bullet 300 300 BULLET_SIZE 0) pierce_scene"
    by simp
  have d: "new_Bullet 300 300 BULLET_SIZE 0 \<in> set (bullets pierce_scene)"
    by simp
  from a b c d
    bullet_filter_effect [of "new_Bullet 105 100 BULLET_SIZE 0" pierce_scene]
    bullet_filter_effect [of "new_Bullet 300 300 BULLET_SIZE 0" pierce_scene]
  show ?thesis by simp
qed

text \<open>
  C1 as stated fails: a single bullet that overlaps two zombies of health 30 damages both
  of them in the same tick.
\<close>

theorem one_bullet_two_zombies:
  "map z_health (zombies pierce_scene) = [30, 30]
   \<and> map z_health (zombies (collision_phase (pierce_scene\<lparr>bullets := [new_Bullet 105 100 BULLET_SIZE 0]\<rparr>))) = [20, 20]"
  by (simp add: collision_phase_sel filter_st_bullets_step bullet_filter_zombies
      bullet_filter_frame config_defs del: filter_st.simps(2))

text \<open>
  The branch of the zombie callback that removes a killed zombie returns before \<open>hit\<close> is
  set (line 609 before line 611), so a bullet on screen all of whose hits kill stays in the
  collection, while the comments of lines 611 and 616 say that a bullet that hit
  disappears.
\<close>

lemma killing_bullet_is_kept:
  assumes "\<forall>z \<in> set (zombies g). hits b z \<longrightarrow> z_health z - 10 * bulletDamageMultiplier (player g) \<le> 0"
    and "\<not> isOffScreen b g"
  shows "fst (bullet_filter b g) = Some b"
  using assms by (auto simp add: bullet_filter_kept)

section \<open>Player health\<close>

text \<open>
  C2, as amended. The stored health never exceeds the maximum of 100: it is 100 after a
  restart, and a tick that starts with health at most 100 ends with health at most 100.
  The floor of zero exists for display only: \<open>updateStatsDisplay\<close> shows
  \<open>max 0 health\<close>, so the value shown during a tick lies between 0 and 100. The stored
  health has no lower bound.
\<close>

theorem health_never_above_maximum:
  assumes "p_health (player g) \<le> MAX_HEALTH"
  shows "p_health (player (updateGame g)) \<le> MAX_HEALTH
     \<and> p_health (player (initGame g0)) \<le> MAX_HEALTH
     \<and> healthValueText (stats (updateStatsDisplay h)) = max 0 (p_health (player h))
     \<and> (\<not> isGameOver g \<longrightarrow>
          healthValueText (stats (updateGame g)) = max 0 (p_health (player g))
        \<and> 0 \<le> healthValueText (stats (updateGame g))
        \<and> healthValueText (stats (updateGame g)) \<le> MAX_HEALTH)"
proof (cases "isGameOver g")
  case True
  with assms show ?thesis
    by (simp add: updateGame_def updateStatsDisplay_frame initGame_def Let_def new_Player_def)
next
  case False
  let ?g1 = "spawn_phase g"
  have "p_health (player (update_entities ?g1)) \<le> p_health (player ?g1)"
    by (rule update_entities_player)
  then have "p_health (player (update_entities ?g1)) \<le> MAX_HEALTH"
    using assms by (simp add: spawn_phase_frame)
  then have "p_health (player (item_phase (update_entities ?g1))) \<le> MAX_HEALTH"
    by (rule item_phase_health)
  then have h: "p_health (player (updateGame g)) \<le> MAX_HEALTH"
    using False by (simp add: updateGame_def check_game_over_frame)
  have "stats (updateGame g) = stats (Player_update ?g1)"
    using False collision_phase_items [of "item_phase (update_entities ?g1)"]
    by (simp add: updateGame_def check_game_over_frame item_phase_frame update_entities_sel)
  then have s: "healthValueText (stats (updateGame g)) = max 0 (p_health (player g))"
    by (simp add: Player_update_player spawn_phase_frame)
  have i: "p_health (player (initGame g0)) \<le> MAX_HEALTH"
    by (simp add: initGame_def Let_def new_Player_def updateStatsDisplay_frame)
  from h s i assms False show ?thesis
    by (simp add: MAX_HEALTH_def updateStatsDisplay_frame)
qed

text \<open>
  The theorem on a scene with health 10 and two zombies in reach of the player.
\<close>

theorem health_never_above_maximum_witness:
  "p_health (player two_attackers) \<le> MAX_HEALTH
   \<and> \<not> isGameOver two_attackers
   \<and> p_health (player (updateGame two_attackers)) \<le> MAX_HEALTH
   \<and> healthValueText (stats (updateGame two_attackers)) = 10"
  using health_never_above_maximum
    [where g = two_attackers and ?g0.0 = two_attackers and h = two_attackers]
  by (simp add: new_Player_def MAX_HEALTH_def)

text \<open>
  C2 as stated fails: with health 10 and two zombies in reach whose attack cooldown has
  elapsed, both attack in the same tick and the stored health after the tick is -10.
\<close>

theorem health_goes_negative:
  "\<not> isGameOver two_attackers \<and> p_health (player two_attackers) = 10
   \<and> p_health (player (updateGame two_attackers)) = - 10"
proof -
  let ?g = two_attackers
  let ?g1 = "spawn_phase ?g"
  let ?g2 = "(Player_update ?g1)\<lparr>bullets := map Bullet_update (bullets (Player_update ?g1))\<rparr>"
  let ?z1 = "new_Zombie 395 400 25"
  let ?z2 = "new_Zombie 390 400 25"
  let ?g3 = "snd (Zombie_update ?z1 ?g2)"
  have zs: "zombies (Player_update ?g1) = [?z1, ?z2]"
    by (simp add: Player_update_frame spawn_phase_def Date_now_def currentSpawnInterval_def
        ZOMBIE_SPAWN_INTERVAL_def ZOMBIE_SIZE_def)
  have idle: "p_x (player (Player_move ?g1)) = 400" "p_y (player (Player_move ?g1)) = 400"
    using Player_move_idle [of ?g1]
    by (simp_all add: spawn_phase_frame new_Player_def PLAYER_SIZE_def)
  have p2: "p_x (player (Player_update ?g1)) = 400" "p_y (player (Player_update ?g1)) = 400"
    "p_size (player (Player_update ?g1)) = 20" "p_health (player (Player_update ?g1)) = 10"
    "clock (Player_update ?g1) = (\<lambda>_. 5000)"
    using idle
    by (simp_all add: Player_update_player Player_update_frame spawn_phase_frame new_Player_def
        PLAYER_SIZE_def)
  have h3: "p_health (player ?g3) = 0"
    by (simp add: Zombie_update_health p2 new_Zombie_sel atan2_def dist2d_horizontal config_defs)
  have p3: "p_x (player ?g3) = 400" "p_y (player ?g3) = 400" "p_size (player ?g3) = 20"
    "clock ?g3 = (\<lambda>_. 5000)"
    by (simp_all add: Zombie_update_position Zombie_update_frame p2)
  have h4: "p_health (player (snd (Zombie_update ?z2 ?g3))) = - 10"
    by (simp add: Zombie_update_health [of ?z2 ?g3] p3 h3 new_Zombie_sel atan2_def
        dist2d_horizontal config_defs)
  have "p_health (player (update_entities ?g1)) = - 10"
    using h4 by (simp add: update_entities_sel(1) zs case_prod_beta)
  moreover have "item_phase (update_entities ?g1) = (update_entities ?g1)\<lparr>items := []\<rparr>"
    by (simp add: item_phase_def update_entities_sel spawn_phase_frame)
  ultimately have "p_health (player (updateGame ?g)) = - 10"
    by (simp add: updateGame_def check_game_over_frame)
  then show ?thesis by (simp add: new_Player_def)
qed

section \<open>Item lifetime\<close>

text \<open>
  C3, as amended. The expiry test is the first thing the item callback does, and it is
  strict: once the remaining lifetime \<open>ITEM_LIFETIME - (now - creationTime)\<close> is below 0
  the item is dropped and nothing else happens to it or to the player (only the clock
  reading is consumed). An item created at \<open>t0\<close> and met at \<open>t0 + 14999\<close> is not expired: it
  is collected, with its upgrade applied, if it touches the player, and kept otherwise.
  With a clock that reads \<open>now\<close> throughout, the item phase keeps exactly the items that
  are neither expired nor touched. Over a whole tick at \<open>t0 + 14999\<close> an item the moved
  player does not touch is still in the collection, and after a tick of a running game at
  \<open>t0 + 15001\<close> it is not.
\<close>

theorem item_expiry:
  "(ITEM_LIFETIME - (clock g (clock_reads g) - creationTime it) < 0
      \<longrightarrow> item_filter it g = (None, g\<lparr>clock_reads := Suc (clock_reads g)\<rparr>))
   \<and> (clock g (clock_reads g) = t0 + 14999 \<and> creationTime it = t0
      \<longrightarrow> item_filter it g =
          (if touches (player g) it
           then (None, applyUpgrade (i_type it) (g\<lparr>clock_reads := Suc (clock_reads g)\<rparr>))
           else (Some it, g\<lparr>clock_reads := Suc (clock_reads g)\<rparr>)))
   \<and> ((\<forall>n. clock g n = now)
      \<longrightarrow> items (item_phase g) =
          filter (\<lambda>it. \<not> ITEM_LIFETIME - (now - creationTime it) < 0 \<and> \<not> touches (player g) it)
            (items g))
   \<and> ((\<forall>n. clock g n = t0 + 14999) \<and> creationTime it = t0 \<and> it \<in> set (items g)
       \<and> \<not> touches (player (Player_move g)) it
      \<longrightarrow> it \<in> set (items (updateGame g)))
   \<and> ((\<forall>n. clock g n = t0 + 15001) \<and> creationTime it = t0 \<and> \<not> isGameOver g
      \<longrightarrow> it \<notin> set (items (updateGame g)))"
proof -
  have a: "ITEM_LIFETIME - (clock g (clock_reads g) - creationTime it) < 0
      \<longrightarrow> item_filter it g = (None, g\<lparr>clock_reads := Suc (clock_reads g)\<rparr>)"
    by (simp add: item_filter_eq)
  have b: "clock g (clock_reads g) = t0 + 14999 \<and> creationTime it = t0
      \<longrightarrow> item_filter it g =
          (if touches (player g) it
           then (None, applyUpgrade (i_type it) (g\<lparr>clock_reads := Suc (clock_reads g)\<rparr>))
           else (Some it, g\<lparr>clock_reads := Suc (clock_reads g)\<rparr>))"
    by (simp add: item_filter_eq ITEM_LIFETIME_def)
  have c: "(\<forall>n. clock g n = now) \<longrightarrow> items (item_phase g) =
          filter (\<lambda>it. \<not> ITEM_LIFETIME - (now - creationTime it) < 0 \<and> \<not> touches (player g) it)
            (items g)"
    using item_phase_steady_clock [of g now] by (simp add: algebra_simps)
  have d: "(\<forall>n. clock g n = t0 + 14999) \<and> creationTime it = t0 \<and> it \<in> set (items g)
       \<and> \<not> touches (player (Player_move g)) it
      \<longrightarrow> it \<in> set (items (updateGame g))"
    using item_survives_tick [of g "t0 + 14999" it] by (simp add: ITEM_LIFETIME_def)
  have e: "(\<forall>n. clock g n = t0 + 15001) \<and> creationTime it = t0 \<and> \<not> isGameOver g
      \<longrightarrow> it \<notin> set (items (updateGame g))"
    using item_gone_after_tick [of g "t0 + 15001" it] by (simp add: ITEM_LIFETIME_def)
  from a b c d e show ?thesis by blast
qed

text \<open>
  The theorem on a scene with one item created at time 0, away from the player, at clock
  readings 14999 and 15001.
\<close>

theorem item_expiry_witness:
  "item_filter old_item (aging_item 15001) = (None, (aging_item 15001)\<lparr>clock_reads := 1\<rparr>)
   \<and> item_filter old_item (aging_item 14999) = (Some old_item, (aging_item 14999)\<lparr>clock_reads := 1\<rparr>)
   \<and> items (item_phase (aging_item 14999)) = [old_item]
   \<and> items (item_phase (aging_item 15001)) = []
   \<and> old_item \<in> set (items (updateGame (aging_item 14999)))
   \<and> old_item \<notin> set (items (updateGame (aging_item 15001)))"
proof -
  have far: "\<not> touches (player (aging_item t)) old_item" for t
    by (simp add: touches_iff old_item_def new_Player_def config_defs)
  have ct: "creationTime old_item = 0" by (simp add: old_item_def)
  from item_expiry [of "aging_item 15001" old_item 0 15001]
    item_expiry [of "aging_item 14999" old_item 0 14999]
    far aging_item_far ct
  show ?thesis by (simp add: ITEM_LIFETIME_def)
qed

text \<open>
  C3 as stated fails at the boundary: at clock reading 15000 the remaining lifetime of an
  item created at 0 is 0, and the item is still in the collection after the tick.
\<close>

theorem item_kept_at_zero_lifetime:
  "ITEM_LIFETIME - (15000 - creationTime old_item) = 0
   \<and> clock (aging_item 15000) = (\<lambda>_. 15000)
   \<and> old_item \<in> set (items (updateGame (aging_item 15000)))"
  using item_survives_tick [of "aging_item 15000" 15000 old_item] aging_item_far [of 15000]
  by (simp add: ITEM_LIFETIME_def) (simp add: old_item_def)

section \<open>When a collected damage boost takes effect\<close>

text \<open>
  C4. In a tick of a running game the multiplier is computed once, in the player update,
  from the end timestamp the player had before the tick (the second clock reading of the
  tick is the one \<open>Player.update\<close> takes). The item phase does not change it, whatever
  it collects: \<open>applyUpgrade\<close> for \<open>damage_boost\<close> sets the end timestamp only. No step of
  the collision phase changes the player, and each bullet deals 10 times the multiplier
  of that player. So a boost collected in tick t leaves the damage of tick t as it was, and
  in the next tick, which starts from the new end timestamp, the multiplier is computed
  from that timestamp.
\<close>

theorem boost_applies_from_next_tick:
  assumes "\<not> isGameOver g"
  shows "bulletDamageMultiplier (player (item_phase (update_entities (spawn_phase g))))
         = (if clock g (Suc (clock_reads g)) < damageBoostEndTime (player g)
            then DAMAGE_BOOST_MULTIPLIER else 1)
     \<and> player (snd (filter_st bullet_filter bs (item_phase (update_entities (spawn_phase g)))))
         = player (item_phase (update_entities (spawn_phase g)))
     \<and> zombies (snd (bullet_filter b s)) =
         map (\<lambda>z. if hits b z then z\<lparr>z_health := z_health z - 10 * bulletDamageMultiplier (player s)\<rparr> else z)
           (filter (\<lambda>z. \<not> (hits b z \<and> z_health z - 10 * bulletDamageMultiplier (player s) \<le> 0)) (zombies s))
     \<and> bulletDamageMultiplier (player (updateGame g))
         = (if clock g (Suc (clock_reads g)) < damageBoostEndTime (player g)
            then DAMAGE_BOOST_MULTIPLIER else 1)
     \<and> bulletDamageMultiplier (player (applyUpgrade ''damage_boost'' h)) = bulletDamageMultiplier (player h)
     \<and> damageBoostEndTime (player (applyUpgrade ''damage_boost'' h)) = clock h (clock_reads h) + UPGRADE_DURATION
     \<and> (\<not> isGameOver (updateGame g) \<longrightarrow>
          bulletDamageMultiplier (player (item_phase (update_entities (spawn_phase (updateGame g)))))
            = (if clock g (Suc (clock_reads (updateGame g))) < damageBoostEndTime (player (updateGame g))
               then DAMAGE_BOOST_MULTIPLIER else 1))"
proof -
  have a: "bulletDamageMultiplier (player (item_phase (update_entities (spawn_phase g))))
         = (if clock g (Suc (clock_reads g)) < damageBoostEndTime (player g)
            then DAMAGE_BOOST_MULTIPLIER else 1)"
    by (rule multiplier_at_collision)
  have b: "bulletDamageMultiplier (player (updateGame g))
         = (if clock g (Suc (clock_reads g)) < damageBoostEndTime (player g)
            then DAMAGE_BOOST_MULTIPLIER else 1)"
    using assms a by (simp add: tick_frame)
  have c: "bulletDamageMultiplier (player (item_phase (update_entities (spawn_phase (updateGame g)))))
            = (if clock g (Suc (clock_reads (updateGame g))) < damageBoostEndTime (player (updateGame g))
               then DAMAGE_BOOST_MULTIPLIER else 1)"
    using multiplier_at_collision [of "updateGame g"] by (simp only: tick_frame(1))
  have d: "bulletDamageMultiplier (player (applyUpgrade ''damage_boost'' h)) = bulletDamageMultiplier (player h)"
    "damageBoostEndTime (player (applyUpgrade ''damage_boost'' h)) = clock h (clock_reads h) + UPGRADE_DURATION"
    by (simp_all add: applyUpgrade_damage_boost)
  from a b c d show ?thesis
    by (simp add: bullets_pass_frame bullet_filter_zombies)
qed

text \<open>
  The theorem on a scene where the player stands on a damage boost item while a bullet
  reaches a zombie: the tick collects the item (end timestamp 15000), the hit still deals
  10 (health 30 becomes 20), and the collision phase of the following tick starts with
  multiplier 1.5.
\<close>

theorem boost_applies_from_next_tick_witness:
  "\<not> isGameOver boost_pickup
   \<and> bulletDamageMultiplier (player (item_phase (update_entities (spawn_phase boost_pickup)))) = 1
   \<and> damageBoostEndTime (player (updateGame boost_pickup)) = 15000
   \<and> map z_health (zombies (updateGame boost_pickup)) = [20]
   \<and> \<not> isGameOver (updateGame boost_pickup)
   \<and> bulletDamageMultiplier
        (player (item_phase (update_entities (spawn_phase (updateGame boost_pickup))))) = 1.5"
proof -
  let ?g = boost_pickup
  let ?ue = "update_entities (spawn_phase ?g)"
  let ?pre = "item_phase ?ue"
  have ng: "\<not> isGameOver ?g" by simp
  have touch: "touches (player ?ue) boost_item"
    by (simp add: touches_iff boost_pickup_entities boost_item_def ITEM_SIZE_def)
  have collected: "snd (item_filter boost_item ?ue)
      = applyUpgrade ''damage_boost'' (?ue\<lparr>clock_reads := Suc (clock_reads ?ue)\<rparr>)"
    using touch
    by (simp add: item_filter_eq boost_pickup_entities ITEM_LIFETIME_def) (simp add: boost_item_def)
  have pre: "damageBoostEndTime (player ?pre) = 15000" "p_health (player ?pre) = 100"
    "bulletDamageMultiplier (player ?pre) = 1"
    by (simp_all add: item_phase_single [of ?ue boost_item] boost_pickup_entities collected
        applyUpgrade_damage_boost UPGRADE_DURATION_def)
  have m: "bulletDamageMultiplier (player ?pre) = 1"
    using boost_applies_from_next_tick [OF ng] by (simp add: new_Player_sel)
  have e: "damageBoostEndTime (player (updateGame ?g)) = 15000"
    using pre by (simp add: tick_frame)
  have z: "map z_health (zombies (updateGame ?g)) = [20]"
    using pre(3)
    by (simp add: tick_frame collision_phase_single(1) [of ?pre "(new_Bullet 90 400 5 0)\<lparr>b_x := 100\<rparr>"]
        item_phase_frame boost_pickup_entities bullet_filter_zombies hits_iff new_Zombie_sel
        new_Bullet_def)
  have ng': "\<not> isGameOver (updateGame ?g)"
    using pre(2)
    by (simp add: updateGame_def check_game_over_def gameOver_def
        collision_phase_single(2) [of ?pre "(new_Bullet 90 400 5 0)\<lparr>b_x := 100\<rparr>"]
        item_phase_frame boost_pickup_entities)
  have m': "bulletDamageMultiplier
      (player (item_phase (update_entities (spawn_phase (updateGame ?g))))) = 1.5"
    using boost_applies_from_next_tick [OF ng] ng' e
    by (simp add: DAMAGE_BOOST_MULTIPLIER_def)
  from ng m e z ng' m' show ?thesis by simp
qed

section \<open>Three hits without a boost\<close>

text \<open>
  C5. A zombie of health 30 that is hit by bullets of base damage 10 with multiplier 1 has
  health 20 after one hit and 10 after two, with the score unchanged; the third hit
  removes it from the collection and adds exactly 10 to the score.
\<close>

theorem three_hits_kill:
  assumes "zombies g = [z]" and "z_health z = 30" and "bulletDamageMultiplier (player g) = 1"
    and "hits b1 z" and "hits b2 z" and "hits b3 z"
  shows "zombies (collision_phase (g\<lparr>bullets := [b1]\<rparr>)) = [z\<lparr>z_health := 20\<rparr>]
       \<and> score (collision_phase (g\<lparr>bullets := [b1]\<rparr>)) = score g
       \<and> zombies (collision_phase (g\<lparr>bullets := [b1, b2]\<rparr>)) = [z\<lparr>z_health := 10\<rparr>]
       \<and> score (collision_phase (g\<lparr>bullets := [b1, b2]\<rparr>)) = score g
       \<and> zombies (collision_phase (g\<lparr>bullets := [b1, b2, b3]\<rparr>)) = []
       \<and> score (collision_phase (g\<lparr>bullets := [b1, b2, b3]\<rparr>)) = score g + 10"
  using assms
  by (simp add: collision_phase_sel filter_st_bullets_step bullet_filter_zombies
      bullet_filter_score bullet_filter_frame del: filter_st.simps(2))

text \<open>
  The theorem on a scene with one zombie and three bullets on it.
\<close>

theorem three_hits_kill_witness:
  "zombies lone_zombie = [new_Zombie 100 100 ZOMBIE_SIZE]
   \<and> z_health (new_Zombie 100 100 ZOMBIE_SIZE) = 30
   \<and> bulletDamageMultiplier (player lone_zombie) = 1
   \<and> hits (new_Bullet 100 100 BULLET_SIZE 0) (new_Zombie 100 100 ZOMBIE_SIZE)
   \<and> hits (new_Bullet 101 100 BULLET_SIZE 0) (new_Zombie 100 100 ZOMBIE_SIZE)
   \<and> hits (new_Bullet 102 100 BULLET_SIZE 0) (new_Zombie 100 100 ZOMBIE_SIZE)
   \<and> map z_health (zombies (collision_phase (lone_zombie\<lparr>bullets :=
        [new_Bullet 100 100 BULLET_SIZE 0, new_Bullet 101 100 BULLET_SIZE 0]\<rparr>))) = [10]
   \<and> zombies (collision_phase (lone_zombie\<lparr>bullets :=
        [new_Bullet 100 100 BULLET_SIZE 0, new_Bullet 101 100 BULLET_SIZE 0,
         new_Bullet 102 100 BULLET_SIZE 0]\<rparr>)) = []
   \<and> score (collision_phase (lone_zombie\<lparr>bullets :=
        [new_Bullet 100 100 BULLET_SIZE 0, new_Bullet 101 100 BULLET_SIZE 0,
         new_Bullet 102 100 BULLET_SIZE 0]\<rparr>)) = 10"
proof -
  have z: "zombies lone_zombie = [new_Zombie 100 100 ZOMBIE_SIZE]"
    and m: "bulletDamageMultiplier (player lone_zombie) = 1"
    and s: "score lone_zombie = 0"
    by (simp_all add: lone_zombie_def new_Player_def)
  have h: "hits (new_Bullet 100 100 BULLET_SIZE 0) (new_Zombie 100 100 ZOMBIE_SIZE)"
    "hits (new_Bullet 101 100 BULLET_SIZE 0) (new_Zombie 100 100 ZOMBIE_SIZE)"
    "hits (new_Bullet 102 100 BULLET_SIZE 0) (new_Zombie 100 100 ZOMBIE_SIZE)"
    by (simp_all add: config_defs)
  from three_hits_kill [OF z new_Zombie_health m h] z m s h
  show ?thesis by simp
qed

section \<open>Damage boost\<close>

text \<open>
  C6. \<open>applyUpgrade\<close> for \<open>damage_boost\<close> sets \<open>damageBoostEndTime\<close> to the clock reading
  it takes plus 10000, also when it is reached by collecting an item of that type. While
  that end timestamp stands, the multiplier that a player update computes at clock reading
  \<open>t\<close> is 1.5 when \<open>t\<close> is strictly before it and 1 otherwise. With multiplier 1.5 a hit
  takes a zombie of health 30 to 15, and a second hit removes it and adds 10 to the score.
\<close>

theorem damage_boost_round_trip:
  assumes "damageBoostEndTime (player g2) = damageBoostEndTime (player (applyUpgrade ''damage_boost'' g))"
    and "zombies g3 = [z]" and "z_health z = 30"
    and "bulletDamageMultiplier (player g3) = DAMAGE_BOOST_MULTIPLIER"
    and "hits b1 z" and "hits b2 z"
  shows "damageBoostEndTime (player (applyUpgrade ''damage_boost'' g)) = clock g (clock_reads g) + 10000
     \<and> (i_type it = ''damage_boost'' \<and> touches (player g) it
          \<and> \<not> ITEM_LIFETIME < clock g (clock_reads g) - creationTime it
        \<longrightarrow> damageBoostEndTime (player (snd (item_filter it g))) = clock g (Suc (clock_reads g)) + 10000)
     \<and> bulletDamageMultiplier (player (Player_update g2))
         = (if clock g2 (clock_reads g2) < clock g (clock_reads g) + 10000 then 1.5 else 1)
     \<and> zombies (collision_phase (g3\<lparr>bullets := [b1]\<rparr>)) = [z\<lparr>z_health := 15\<rparr>]
     \<and> score (collision_phase (g3\<lparr>bullets := [b1]\<rparr>)) = score g3
     \<and> zombies (collision_phase (g3\<lparr>bullets := [b1, b2]\<rparr>)) = []
     \<and> score (collision_phase (g3\<lparr>bullets := [b1, b2]\<rparr>)) = score g3 + 10"
proof -
  have a: "damageBoostEndTime (player (applyUpgrade ''damage_boost'' g)) = clock g (clock_reads g) + 10000"
    by (simp add: applyUpgrade_damage_boost UPGRADE_DURATION_def)
  have b: "i_type it = ''damage_boost'' \<and> touches (player g) it
          \<and> \<not> ITEM_LIFETIME < clock g (clock_reads g) - creationTime it
        \<longrightarrow> damageBoostEndTime (player (snd (item_filter it g))) = clock g (Suc (clock_reads g)) + 10000"
    by (simp add: item_filter_eq applyUpgrade_damage_boost UPGRADE_DURATION_def)
  have c: "bulletDamageMultiplier (player (Player_update g2))
         = (if clock g2 (clock_reads g2) < clock g (clock_reads g) + 10000 then 1.5 else 1)"
    using assms(1) a by (simp add: Player_update_player DAMAGE_BOOST_MULTIPLIER_def)
  have d: "zombies (collision_phase (g3\<lparr>bullets := [b1]\<rparr>)) = [z\<lparr>z_health := 15\<rparr>]
     \<and> score (collision_phase (g3\<lparr>bullets := [b1]\<rparr>)) = score g3
     \<and> zombies (collision_phase (g3\<lparr>bullets := [b1, b2]\<rparr>)) = []
     \<and> score (collision_phase (g3\<lparr>bullets := [b1, b2]\<rparr>)) = score g3 + 10"
    using assms(2-)
    by (simp add: collision_phase_sel filter_st_bullets_step bullet_filter_zombies
      bullet_filter_score bullet_filter_frame DAMAGE_BOOST_MULTIPLIER_def del: filter_st.simps(2))
  from a b c d show ?thesis by simp
qed

text \<open>
  The theorem for a boost collected at 5000: the multiplier is 1.5 at 14999 and 1 at 15000,
  and two boosted hits kill a zombie of health 30.
\<close>

theorem damage_boost_round_trip_witness:
  "damageBoostEndTime (player (applyUpgrade ''damage_boost'' (fresh_game 5000 0))) = 15000
   \<and> i_type boost_item = ''damage_boost'' \<and> touches (player (fresh_game 5000 0)) boost_item
   \<and> damageBoostEndTime (player (snd (item_filter boost_item (fresh_game 5000 0)))) = 15000
   \<and> bulletDamageMultiplier (player (Player_update (boosted 14999))) = 1.5
   \<and> bulletDamageMultiplier (player (Player_update (boosted 15000))) = 1
   \<and> zombies (collision_phase ((Player_update (boosted 14999))
        \<lparr>zombies := [new_Zombie 100 100 ZOMBIE_SIZE],
         bullets := [new_Bullet 100 100 BULLET_SIZE 0]\<rparr>))
       = [(new_Zombie 100 100 ZOMBIE_SIZE)\<lparr>z_health := 15\<rparr>]
   \<and> zombies (collision_phase ((Player_update (boosted 14999))
        \<lparr>zombies := [new_Zombie 100 100 ZOMBIE_SIZE],
         bullets := [new_Bullet 100 100 BULLET_SIZE 0, new_Bullet 101 100 BULLET_SIZE 0]\<rparr>)) = []"
proof -
  let ?g = "fresh_game 5000 0"
  let ?z = "new_Zombie 100 100 ZOMBIE_SIZE"
  let ?b1 = "new_Bullet 100 100 BULLET_SIZE 0"
  let ?b2 = "new_Bullet 101 100 BULLET_SIZE 0"
  let ?g3 = "(Player_update (boosted 14999))\<lparr>zombies := [?z]\<rparr>"
  have e: "damageBoostEndTime (player (boosted t)) = damageBoostEndTime (player (applyUpgrade ''damage_boost'' ?g))" for t
    by (simp add: boosted_def)
  have z: "zombies ?g3 = [?z]" by simp
  have m: "bulletDamageMultiplier (player ?g3) = DAMAGE_BOOST_MULTIPLIER"
    by (simp add: Player_update_player boosted_sel)
  have h: "hits ?b1 ?z" "hits ?b2 ?z" by (simp_all add: config_defs)
  have t: "i_type boost_item = ''damage_boost''" "touches (player ?g) boost_item"
    "creationTime boost_item = 4000"
    by (simp_all add: boost_item_def touches_iff new_Player_sel config_defs)
  from damage_boost_round_trip [OF e [of 14999] z new_Zombie_health m h, of boost_item]
    damage_boost_round_trip [OF e [of 15000] z new_Zombie_health m h, of boost_item] t
  show ?thesis by (simp add: boosted_sel ITEM_LIFETIME_def)
qed

section \<open>Firing\<close>

text \<open>
  C7. When the shot cooldown has elapsed, one call of \<open>shoot\<close> with triple shot active
  appends exactly three bullets, whose velocities point along the aim angle minus 0.35,
  the aim angle, and the aim angle plus 0.35; at aim angle 0 their headings are -0.35, 0
  and +0.35 radians. With triple shot not active it appends exactly one bullet, whose
  heading is the aim angle.
\<close>

theorem shoot_spread:
  assumes "clock g (clock_reads g) - lastShotTime (player g) > currentShotDelay (player g)"
  shows "if tripleShotEndTime (player g) > clock g (clock_reads g)
     then (\<exists>b1 b2 b3. bullets (shoot g) = bullets g @ [b1, b2, b3]
            \<and> vx b1 = cos (aimAngle g - 0.35) * BULLET_SPEED \<and> vy b1 = sin (aimAngle g - 0.35) * BULLET_SPEED
            \<and> vx b2 = cos (aimAngle g) * BULLET_SPEED \<and> vy b2 = sin (aimAngle g) * BULLET_SPEED
            \<and> vx b3 = cos (aimAngle g + 0.35) * BULLET_SPEED \<and> vy b3 = sin (aimAngle g + 0.35) * BULLET_SPEED
            \<and> (aimAngle g = 0 \<longrightarrow> heading b1 = - 0.35 \<and> heading b2 = 0 \<and> heading b3 = 0.35))
     else (\<exists>b. bullets (shoot g) = bullets g @ [b]
            \<and> vx b = cos (aimAngle g) * BULLET_SPEED \<and> vy b = sin (aimAngle g) * BULLET_SPEED
            \<and> heading b = aimAngle g)"
proof (cases "tripleShotEndTime (player g) > clock g (clock_reads g)")
  case True
  have "- pi < - 0.35" "(0.35::real) \<le> pi" using pi_ge_two by simp_all
  then have h: "heading (new_Bullet x y sz (- 0.35)) = - 0.35"
     "heading (new_Bullet x y sz 0) = 0"
     "heading (new_Bullet x y sz 0.35) = 0.35" for x y sz
    using pi_gt_zero by (simp_all add: heading_new_Bullet)
  show ?thesis using True bullets_shoot [OF assms] h
    by (simp add: new_Bullet_def)
next
  case False
  show ?thesis using False bullets_shoot [OF assms] aimAngle_range [of g]
    by (simp add: heading_new_Bullet) (simp add: new_Bullet_def)
qed

text \<open>
  The theorem with the mouse straight to the right of the player (aim angle 0), with and
  without triple shot.
\<close>

theorem shoot_spread_witness:
  "(\<exists>b1 b2 b3. bullets (shoot (aiming_right 9000)) = [b1, b2, b3]
      \<and> heading b1 = - 0.35 \<and> heading b2 = 0 \<and> heading b3 = 0.35)
   \<and> (\<exists>b. bullets (shoot (aiming_right 0)) = [b] \<and> heading b = 0)"
proof -
  have "\<exists>b1 b2 b3. bullets (shoot (aiming_right 9000)) = [b1, b2, b3]
      \<and> heading b1 = - 0.35 \<and> heading b2 = 0 \<and> heading b3 = 0.35"
    using shoot_spread [of "aiming_right 9000"] by (simp add: aiming_right_facts) blast
  moreover have "\<exists>b. bullets (shoot (aiming_right 0)) = [b] \<and> heading b = 0"
    using shoot_spread [of "aiming_right 0"] by (simp add: aiming_right_facts) blast
  ultimately show ?thesis by simp
qed

section \<open>Spawn interval\<close>

text \<open>
  C8. For every score \<open>s\<close> the spawn interval is \<open>1500 - min (8 * s) 1000\<close> milliseconds: it
  falls by 8 ms per point up to score 125 and stays at the floor of 500 ms from there on.
  The spawn phase adds a zombie (exactly one, at the end of the collection) exactly when
  the clock reading minus \<open>lastZombieSpawnTime\<close> exceeds the interval for the current
  score, and leaves the collection alone otherwise.
\<close>

theorem spawn_interval_formula:
  "currentSpawnInterval s = 1500 - min (8 * s) 1000
   \<and> 500 \<le> currentSpawnInterval s
   \<and> (s \<le> 125 \<longrightarrow> currentSpawnInterval s = 1500 - 8 * s)
   \<and> (125 \<le> s \<longrightarrow> currentSpawnInterval s = 500)
   \<and> (if clock g (clock_reads g) - lastZombieSpawnTime g > currentSpawnInterval (score g)
      then (\<exists>z. zombies (spawn_phase g) = zombies g @ [z])
      else zombies (spawn_phase g) = zombies g)"
proof -
  have formula: "currentSpawnInterval s = 1500 - min (8 * s) 1000"
    by (simp add: currentSpawnInterval_def ZOMBIE_SPAWN_INTERVAL_def mult.commute)
  have spawn: "if clock g (clock_reads g) - lastZombieSpawnTime g > currentSpawnInterval (score g)
      then (\<exists>z. zombies (spawn_phase g) = zombies g @ [z])
      else zombies (spawn_phase g) = zombies g"
    using spawnZombie_appends [of "g\<lparr>clock_reads := Suc (clock_reads g)\<rparr>"]
    by (simp add: spawn_phase_def Date_now_def)
  from formula spawn show ?thesis by simp
qed

text \<open>
  The theorem at scores 100 and 125, and on a fresh game at clock reading 1501.
\<close>

theorem spawn_interval_formula_witness:
  "currentSpawnInterval 100 = 700 \<and> currentSpawnInterval 125 = 500
   \<and> (\<exists>z. zombies (spawn_phase (fresh_game 1501 0)) = [z])"
proof -
  have a: "currentSpawnInterval 100 = 700"
    using spawn_interval_formula [of 100 "fresh_game 1501 0"] by simp
  have b: "currentSpawnInterval 125 = 500"
    using spawn_interval_formula [of 125 "fresh_game 1501 0"] by simp
  have c: "\<exists>z. zombies (spawn_phase (fresh_game 1501 0)) = [z]"
    using spawn_interval_formula [of 0 "fresh_game 1501 0"] by (auto split: if_splits)
  from a b c show ?thesis by simp
qed

section \<open>Restart\<close>

text \<open>
  C9. Restarting twice in a row gives the same session as restarting once: every
  variable of the session agrees (only the statistics display and the count of clock
  readings taken, which are not session state, are set aside), the score is 0, the three
  collections are empty, the player has full health and stands at the centre of the
  canvas, the spawn timer is 0 and the game is not over.
\<close>

theorem initGame_idempotent:
  "(initGame (initGame g))\<lparr>stats := st, clock_reads := n\<rparr> = (initGame g)\<lparr>stats := st, clock_reads := n\<rparr>
   \<and> score (initGame g) = 0
   \<and> bullets (initGame g) = [] \<and> zombies (initGame g) = [] \<and> items (initGame g) = []
   \<and> p_health (player (initGame g)) = 100
   \<and> p_x (player (initGame g)) = canvas_width g / 2
   \<and> p_y (player (initGame g)) = canvas_height g / 2
   \<and> lastZombieSpawnTime (initGame g) = 0
   \<and> \<not> isGameOver (initGame g)"
  by (simp add: initGame_def resetJoystick_def updateStatsDisplay_def Date_now_def Let_def
      new_Player_def MAX_HEALTH_def)

section \<open>Upgrades of unknown type\<close>

text \<open>
  C10. For every player state and every upgrade type other than \<open>health_pack\<close>,
  \<open>triple_shot\<close> and \<open>damage_boost\<close>, \<open>applyUpgrade\<close> does nothing: the whole game state,
  and with it every player field, is unchanged, and no clock reading is consumed.
\<close>

theorem applyUpgrade_unknown_noop:
  "ty \<notin> {''health_pack'', ''triple_shot'', ''damage_boost''} \<Longrightarrow> applyUpgrade ty g = g"
  by (simp add: applyUpgrade_def)

text \<open>
  The theorem for the type \<open>speed_boost\<close>.
\<close>

theorem applyUpgrade_unknown_noop_witness:
  "''speed_boost'' \<notin> {''health_pack'', ''triple_shot'', ''damage_boost''}
   \<and> applyUpgrade ''speed_boost'' (fresh_game 5000 0) = fresh_game 5000 0"
  using applyUpgrade_unknown_noop [of "''speed_boost''" "fresh_game 5000 0"] by simp

end
